theory Spec2Isabelle
  imports Complex_Main "HOL-Library.Sublist"
begin

section \<open>Python values handled by the page script\<close>

text \<open>
  The script \<^verbatim>\<open>app.py\<close> is a Streamlit page. It receives dictionaries from its
  data providers and shows their entries. The values that occur are modelled by
  \<open>pyval\<close>: \<open>None\<close>, integers, floats, strings and lists. A float is
  represented by the exact rational it denotes; signed zeros, NaN, infinities and the
  rounding of float multiplication are outside the model. A dictionary is an association
  list; \<open>dict.get\<close> is \<open>dget\<close>.
\<close>

datatype pyval =
    PNone
  | PInt int
  | PFloat rat
  | PStr string
  | PList "pyval list"

type_synonym pydict = "(string \<times> pyval) list"

datatype exn =
    TypeError string
  | ValueError string
  | AttributeError string
  | OtherError string

fun str_exn :: "exn \<Rightarrow> string" where
  "str_exn (TypeError m) = m"
| "str_exn (ValueError m) = m"
| "str_exn (AttributeError m) = m"
| "str_exn (OtherError m) = m"

definition dget :: "pydict \<Rightarrow> string \<Rightarrow> pyval \<Rightarrow> pyval" where
  "dget d k dflt = (case map_of d k of None \<Rightarrow> dflt | Some v \<Rightarrow> v)"

text \<open>\<open>d.get(k)\<close> with no default gives \<open>None\<close> for a missing key.\<close>

definition dget_none :: "pydict \<Rightarrow> string \<Rightarrow> pyval" where
  "dget_none d k = dget d k PNone"

text \<open>Truth value of a Python object in an \<open>if\<close>.\<close>

fun truthy :: "pyval \<Rightarrow> bool" where
  "truthy PNone = False"
| "truthy (PInt i) = (i \<noteq> 0)"
| "truthy (PFloat r) = (r \<noteq> 0)"
| "truthy (PStr s) = (s \<noteq> [])"
| "truthy (PList xs) = (xs \<noteq> [])"

text \<open>
  The providers return a dictionary or \<open>None\<close>; \<open>if company_info:\<close> is false for
  \<open>None\<close> and for the empty dictionary.
\<close>

fun truthy_dict :: "pydict option \<Rightarrow> bool" where
  "truthy_dict None = False"
| "truthy_dict (Some d) = (d \<noteq> [])"

subsection \<open>Strings\<close>

definition lower_letters :: string where
  "lower_letters = ''abcdefghijklmnopqrstuvwxyz''"

definition upper_letters :: string where
  "upper_letters = ''ABCDEFGHIJKLMNOPQRSTUVWXYZ''"

definition py_upper_char :: "char \<Rightarrow> char" where
  "py_upper_char c =
     (case map_of (zip lower_letters upper_letters) c of None \<Rightarrow> c | Some u \<Rightarrow> u)"

definition py_lower_char :: "char \<Rightarrow> char" where
  "py_lower_char c =
     (case map_of (zip upper_letters lower_letters) c of None \<Rightarrow> c | Some l \<Rightarrow> l)"

definition is_letter :: "char \<Rightarrow> bool" where
  "is_letter c = (c \<in> set lower_letters \<or> c \<in> set upper_letters)"

text \<open>\<open>str.upper\<close> on the ASCII letters; every other byte is kept.\<close>

definition py_upper :: "string \<Rightarrow> string" where
  "py_upper s = map py_upper_char s"

text \<open>
  \<open>str.title\<close>: a letter that follows a non-letter is put in upper case, a letter
  that follows a letter in lower case.
\<close>

fun py_title_from :: "bool \<Rightarrow> string \<Rightarrow> string" where
  "py_title_from prev [] = []"
| "py_title_from prev (c # cs) =
     (if is_letter c
      then (if prev then py_lower_char c else py_upper_char c) # py_title_from True cs
      else c # py_title_from False cs)"

definition py_title :: "string \<Rightarrow> string" where
  "py_title s = py_title_from False s"

text \<open>\<open>sep.join(parts)\<close>.\<close>

fun py_join :: "string \<Rightarrow> string list \<Rightarrow> string" where
  "py_join sep [] = []"
| "py_join sep [x] = x"
| "py_join sep (x # y # ys) = x @ sep @ py_join sep (y # ys)"

subsection \<open>Number formatting\<close>

definition digit_char :: "nat \<Rightarrow> char" where
  "digit_char d = ''0123456789'' ! d"

fun dec_digits :: "nat \<Rightarrow> string" where
  "dec_digits n =
     (if n < 10 then [digit_char n] else dec_digits (n div 10) @ [digit_char (n mod 10)])"

definition round_half_even :: "rat \<Rightarrow> int" where
  "round_half_even r =
     (let f = \<lfloor>r\<rfloor>; d = r - of_int f
      in if d < 1 / 2 then f
         else if 1 / 2 < d then f + 1
         else if even f then f else f + 1)"

text \<open>
  \<open>format(y, ".2f")\<close> and, with the sign flag, \<open>format(y, "+.2f")\<close>: the value rounded
  to hundredths, a sign, the integer part and exactly two decimals.
\<close>

definition fmt_2f :: "bool \<Rightarrow> rat \<Rightarrow> string" where
  "fmt_2f always_sign y =
     (let q = nat \<bar>round_half_even (y * 100)\<bar>
      in (if y < 0 then ''-'' else if always_sign then ''+'' else [])
         @ dec_digits (q div 100) @ ''.''
         @ [digit_char (q mod 100 div 10), digit_char (q mod 10)])"

definition quoted :: "string \<Rightarrow> string" where
  "quoted s = CHR 0x27 # s @ [CHR 0x27]"

fun type_name :: "pyval \<Rightarrow> string" where
  "type_name PNone = ''NoneType''"
| "type_name (PInt i) = ''int''"
| "type_name (PFloat r) = ''float''"
| "type_name (PStr s) = ''str''"
| "type_name (PList xs) = ''list''"

text \<open>The exception of a \<open>.2f\<close> format applied to a value that is not a number.\<close>

definition bad_format_code :: "pyval \<Rightarrow> exn" where
  "bad_format_code v =
     (if type_name v = ''str''
      then ValueError (''Unknown format code '' @ quoted ''f'' @ '' for object of type ''
                       @ quoted ''str'')
      else TypeError (''unsupported format string passed to '' @ type_name v @ ''.__format__''))"

text \<open>
  The expression \<open>f"{x * 100:.2f}%"\<close>. A number is scaled and formatted. A string or
  a list is repeated a hundred times by \<open>*\<close> and then rejected by the format
  specification; \<open>None * 100\<close> is a type error.
\<close>

fun percent_text :: "pyval \<Rightarrow> exn + pyval" where
  "percent_text (PInt i) = Inr (PStr (fmt_2f False (of_int (i * 100)) @ ''%''))"
| "percent_text (PFloat r) = Inr (PStr (fmt_2f False (r * 100) @ ''%''))"
| "percent_text (PStr s) = Inl (bad_format_code (PStr s))"
| "percent_text (PList xs) = Inl (bad_format_code (PList xs))"
| "percent_text PNone =
     Inl (TypeError (''unsupported operand type(s) for *: '' @ quoted ''NoneType'' @ '' and ''
                     @ quoted ''int''))"

text \<open>
  \<open>f"{m.get(k, 0) * 100:.2f}%" if m.get(k) else "N/A"\<close>: the guard is the truth
  value of the entry.
\<close>

definition pct_if_truthy :: "pydict \<Rightarrow> string \<Rightarrow> exn + pyval" where
  "pct_if_truthy m k =
     (if truthy (dget_none m k) then percent_text (dget m k (PInt 0)) else Inr (PStr ''N/A''))"

text \<open>
  \<open>f"{m.get(k, 0) * 100:.2f}%" if m.get(k) is not None else "N/A"\<close>: the guard is
  the presence of a value other than \<open>None\<close>.
\<close>

definition pct_if_not_none :: "pydict \<Rightarrow> string \<Rightarrow> exn + pyval" where
  "pct_if_not_none m k =
     (if dget_none m k \<noteq> PNone then percent_text (dget m k (PInt 0)) else Inr (PStr ''N/A''))"

section \<open>Asset kind and display window\<close>

text \<open>\<open>is_crypto = "-" in stock_symbol.upper()\<close>\<close>

definition is_crypto :: "string \<Rightarrow> bool" where
  "is_crypto stock_symbol = (CHR ''-'' \<in> set (py_upper stock_symbol))"

text \<open>\<open>DataFrame.tail(n)\<close> on the rows of a frame, oldest first.\<close>

definition tail_rows :: "nat \<Rightarrow> 'a list \<Rightarrow> 'a list" where
  "tail_rows n rows = drop (length rows - n) rows"

definition display_data :: "'a list \<Rightarrow> 'a list" where
  "display_data stock_data =
     (if length stock_data > 252 then tail_rows 252 stock_data else stock_data)"

section \<open>Traces of a page run\<close>

text \<open>
  A run of the script is observed as the list of its effects, in order: the calls it makes
  to the data providers and the widgets it puts on the page. A widget lies in the main
  area or in one of the four tabs. Text built by an f-string is a list of fragments, a
  literal or the \<open>str\<close> of an embedded value. Columns inside a tab only arrange
  widgets and are not tracked as containers.
\<close>

datatype frag = Lit string | Val pyval

type_synonym rich = "frag list"

datatype container = Main | Tab nat

datatype 'fig widget =
    Spinner string
  | Expander rich bool
  | Tabs "string list"
  | Columns nat
  | Subheader string
  | PlotlyChart 'fig
  | Success rich
  | Error rich
  | Info rich
  | Warning string
  | Markdown rich
  | Write pyval
  | WriteLabelled string pyval
  | Metric string pyval

datatype call =
    Call_get_stock_data string string
  | Call_plot_stock_chart
  | Call_get_company_info string
  | Call_get_financial_metrics string
  | Call_get_news_for_asset string nat
  | Call_generate_stock_analysis string
  | Call_summarize_news_sentiment

datatype 'fig event = Call call | UI container "'fig widget"

text \<open>
  A statement yields the events it produced and either the exception it raised or its
  value.
\<close>

type_synonym ('fig, 'a) res = "'fig event list \<times> (exn + 'a)"

definition emit :: "'fig widget \<Rightarrow> ('fig, unit) res" where
  "emit w = ([UI Main w], Inr ())"

definition call :: "call \<Rightarrow> exn + 'a \<Rightarrow> ('fig, 'a) res" where
  "call c outcome = ([Call c], outcome)"

definition eval :: "exn + 'a \<Rightarrow> ('fig, 'a) res" where
  "eval x = ([], x)"

definition then_do :: "('fig, 'a) res \<Rightarrow> ('a \<Rightarrow> ('fig, 'b) res) \<Rightarrow> ('fig, 'b) res" where
  "then_do r f =
     (case r of
        (tr, Inl e) \<Rightarrow> (tr, Inl e)
      | (tr, Inr x) \<Rightarrow> (case f x of (tr2, y) \<Rightarrow> (tr @ tr2, y)))"

fun seq :: "('fig, unit) res list \<Rightarrow> ('fig, unit) res" where
  "seq [] = ([], Inr ())"
| "seq (s # ss) = then_do s (\<lambda>_. seq ss)"

text \<open>\<open>try: body except Exception as e: handler(e)\<close>\<close>

definition try_except :: "('fig, 'a) res \<Rightarrow> (exn \<Rightarrow> ('fig, 'a) res) \<Rightarrow> ('fig, 'a) res" where
  "try_except body handler =
     (case body of
        (tr, Inl e) \<Rightarrow> (case handler e of (tr2, y) \<Rightarrow> (tr @ tr2, y))
      | (tr, Inr x) \<Rightarrow> (tr, Inr x))"

text \<open>\<open>with tab:\<close> places the widgets of its body in the tab.\<close>

fun place :: "container \<Rightarrow> 'fig event \<Rightarrow> 'fig event" where
  "place c (UI c0 w) = UI c w"
| "place c (Call x) = Call x"

definition inside :: "container \<Rightarrow> ('fig, 'a) res \<Rightarrow> ('fig, 'a) res" where
  "inside c r = (map (place c) (fst r), snd r)"

section \<open>The data providers\<close>

text \<open>
  The functions imported from the \<open>utils\<close> package are parameters of the model: each
  may raise or return. \<open>get_news_for_asset\<close> is called twice in a request and takes the
  ordinal of the call, since the remote source need not answer twice alike.
  \<open>generate_stock_analysis\<close> takes the session's API key, which the script holds in
  \<open>st.session_state\<close> and does not pass.
\<close>

record ('bar, 'fig) world =
  get_stock_data :: "string \<Rightarrow> string \<Rightarrow> exn + 'bar list option"
  plot_stock_chart :: "'bar list \<Rightarrow> exn + 'fig"
  get_company_info :: "string \<Rightarrow> exn + pydict option"
  get_financial_metrics :: "string \<Rightarrow> exn + pydict option"
  get_news_for_asset :: "nat \<Rightarrow> string \<Rightarrow> nat \<Rightarrow> exn + pydict list"
  generate_stock_analysis ::
    "string \<Rightarrow> string \<Rightarrow> 'bar list \<Rightarrow> pydict option \<Rightarrow> pydict option \<Rightarrow> pydict list
       \<Rightarrow> exn + pydict"
  summarize_news_sentiment :: "pydict list \<Rightarrow> exn + pydict"

section \<open>The four tabs\<close>

definition emoji_up :: string where
  "emoji_up = [CHR 0xF0, CHR 0x9F, CHR 0x93, CHR 0x88]"

definition emoji_down :: string where
  "emoji_down = [CHR 0xF0, CHR 0x9F, CHR 0x93, CHR 0x89]"

definition emoji_scales :: string where
  "emoji_scales = [CHR 0xE2, CHR 0x9A, CHR 0x96, CHR 0xEF, CHR 0xB8, CHR 0x8F]"

text \<open>\<open>for x in v\<close>: the items of a list, the characters of a string.\<close>

fun py_iter :: "pyval \<Rightarrow> exn + pyval list" where
  "py_iter (PList xs) = Inr xs"
| "py_iter (PStr s) = Inr (map (\<lambda>c. PStr [c]) s)"
| "py_iter v = Inl (TypeError (quoted (type_name v) @ '' object is not iterable''))"

subsection \<open>Tab 1: chart and recommendation (lines 92 to 136)\<close>

definition show_recommendation :: "pydict \<Rightarrow> ('fig, unit) res" where
  "show_recommendation analysis_result =
     (let recommendation = dget analysis_result ''recommendation'' (PStr ''NEUTRAL'')
      in seq [
        (if recommendation = PStr ''BUY''
         then emit (Success [Lit ''## Recommendation: '', Val recommendation, Lit ('' '' @ emoji_up)])
         else if recommendation = PStr ''SELL''
         then emit (Error [Lit ''## Recommendation: '', Val recommendation, Lit ('' '' @ emoji_down)])
         else emit (Info [Lit ''## Recommendation: '', Val recommendation, Lit ('' '' @ emoji_scales)])),
        emit (Markdown [Lit ''### Analysis Summary'']),
        emit (Write (dget analysis_result ''summary'' (PStr ''No summary available''))),
        emit (Markdown [Lit ''### Risk Factors'']),
        then_do (eval (py_iter (dget analysis_result ''risk_factors'' (PList []))))
          (\<lambda>risk_factors. seq (map (\<lambda>factor. emit (Markdown [Lit ''- '', Val factor])) risk_factors)),
        emit (Expander [Lit ''Detailed Analysis''] False),
        emit (Write (dget analysis_result ''detailed_analysis''
                       (PStr ''No detailed analysis available'')))])"

definition tab1 ::
  "('bar, 'fig) world \<Rightarrow> string \<Rightarrow> string \<Rightarrow> 'bar list \<Rightarrow> 'bar list
     \<Rightarrow> ('fig, pydict option \<times> pydict option) res" where
  "tab1 w api_key stock_symbol stock_data shown =
     then_do (emit (Subheader (stock_symbol @ '' Price Chart''))) (\<lambda>_.
     then_do (call Call_plot_stock_chart (plot_stock_chart w shown)) (\<lambda>fig.
     then_do (emit (PlotlyChart fig)) (\<lambda>_.
     then_do (emit (Subheader (''Gemini AI ''
                @ (if is_crypto stock_symbol then ''Cryptocurrency'' else ''Stock'')
                @ '' Analysis''))) (\<lambda>_.
     then_do (call (Call_get_company_info stock_symbol) (get_company_info w stock_symbol))
       (\<lambda>company_info.
     then_do (call (Call_get_financial_metrics stock_symbol)
                (get_financial_metrics w stock_symbol)) (\<lambda>financial_metrics.
     then_do (call (Call_get_news_for_asset stock_symbol 5)
                (get_news_for_asset w 0 stock_symbol 5)) (\<lambda>news_articles.
     then_do (call (Call_generate_stock_analysis stock_symbol)
                (generate_stock_analysis w api_key stock_symbol stock_data company_info
                   financial_metrics news_articles)) (\<lambda>analysis_result.
     then_do (show_recommendation analysis_result) (\<lambda>_.
     eval (Inr (company_info, financial_metrics)))))))))))"

subsection \<open>Tab 2: company information (lines 138 to 182)\<close>

definition tab2 :: "string \<Rightarrow> pydict option \<Rightarrow> ('fig, unit) res" where
  "tab2 stock_symbol company_info =
     (if is_crypto stock_symbol then
        seq (emit (Subheader (''About '' @ stock_symbol)) #
          (case company_info of
             Some info \<Rightarrow>
               if truthy_dict company_info then
                 [emit (Columns 2),
                  emit (WriteLabelled ''**Name:**'' (dget info ''longName'' (PStr stock_symbol))),
                  emit (WriteLabelled ''**Category:**'' (PStr ''Cryptocurrency'')),
                  emit (WriteLabelled ''**Symbol:**'' (PStr stock_symbol)),
                  emit (WriteLabelled ''**Market:**'' (PStr ''Cryptocurrency'')),
                  emit (WriteLabelled ''**Market Cap:**'' (dget info ''marketCap'' (PStr ''N/A''))),
                  emit (WriteLabelled ''**Volume (24h):**'' (dget info ''volume24Hr'' (PStr ''N/A''))),
                  emit (WriteLabelled ''**Circulating Supply:**''
                          (dget info ''circulatingSupply'' (PStr ''N/A''))),
                  emit (Markdown [Lit ''### Description'']),
                  emit (Write (dget info ''description''
                          (dget info ''longBusinessSummary'' (PStr ''No description available''))))]
               else [emit (Warning ''Cryptocurrency information not available'')]
           | None \<Rightarrow> [emit (Warning ''Cryptocurrency information not available'')]))
      else
        seq (emit (Subheader (''About '' @ stock_symbol)) #
          (case company_info of
             Some info \<Rightarrow>
               if truthy_dict company_info then
                 [emit (Columns 2),
                  emit (WriteLabelled ''**Company Name:**'' (dget info ''longName'' (PStr ''N/A''))),
                  emit (WriteLabelled ''**Sector:**'' (dget info ''sector'' (PStr ''N/A''))),
                  emit (WriteLabelled ''**Industry:**'' (dget info ''industry'' (PStr ''N/A''))),
                  emit (WriteLabelled ''**Country:**'' (dget info ''country'' (PStr ''N/A''))),
                  emit (WriteLabelled ''**Exchange:**'' (dget info ''exchange'' (PStr ''N/A''))),
                  emit (WriteLabelled ''**Market Cap:**'' (dget info ''marketCap'' (PStr ''N/A''))),
                  emit (WriteLabelled ''**Employees:**''
                          (dget info ''fullTimeEmployees'' (PStr ''N/A''))),
                  emit (WriteLabelled ''**Website:**'' (dget info ''website'' (PStr ''N/A''))),
                  emit (Markdown [Lit ''### Business Summary'']),
                  emit (Write (dget info ''longBusinessSummary''
                          (PStr ''No business summary available'')))]
               else [emit (Warning ''Company information not available'')]
           | None \<Rightarrow> [emit (Warning ''Company information not available'')])))"

subsection \<open>Tab 3: financial metrics (lines 184 to 252)\<close>

text \<open>A metric whose value is an expression that may raise.\<close>

definition metric_of :: "string \<Rightarrow> exn + pyval \<Rightarrow> ('fig, unit) res" where
  "metric_of label v = then_do (eval v) (\<lambda>x. emit (Metric label x))"

definition crypto_metrics :: "pydict \<Rightarrow> ('fig, unit) res list" where
  "crypto_metrics m =
     [metric_of ''24h Change'' (pct_if_truthy m ''regularMarketChangePercent''),
      emit (Metric ''24h Volume'' (dget m ''volume24Hr'' (dget m ''volume'' (PStr ''N/A'')))),
      emit (Metric ''Market Cap'' (dget m ''marketCap'' (PStr ''N/A''))),
      emit (Metric ''Circulating Supply'' (dget m ''circulatingSupply'' (PStr ''N/A''))),
      emit (Metric ''All-Time High'' (dget m ''fiftyTwoWeekHigh'' (PStr ''N/A''))),
      emit (Metric ''All-Time Low'' (dget m ''fiftyTwoWeekLow'' (PStr ''N/A''))),
      emit (Metric ''Max Supply'' (dget m ''maxSupply'' (PStr ''N/A''))),
      emit (Metric ''Total Supply'' (dget m ''totalSupply'' (PStr ''N/A''))),
      emit (Metric ''Volume Ratio'' (dget m ''averageDailyVolume10Day'' (PStr ''N/A''))),
      emit (Expander [Lit ''More Financial Metrics''] False),
      emit (WriteLabelled ''**Market Dominance:**'' (dget m ''marketDominance'' (PStr ''N/A''))),
      emit (WriteLabelled ''**Trading Volume:**'' (dget m ''volume'' (PStr ''N/A''))),
      emit (WriteLabelled ''**Avg Volume (3m):**'' (dget m ''averageVolume3Months'' (PStr ''N/A''))),
      emit (WriteLabelled ''**Avg Volume (10d):**''
              (dget m ''averageDailyVolume10Day'' (PStr ''N/A''))),
      emit (WriteLabelled ''**Beta:**'' (dget m ''beta'' (PStr ''N/A''))),
      emit (WriteLabelled ''**YTD Return:**'' (dget m ''ytdReturn'' (PStr ''N/A'')))]"

definition stock_metrics :: "pydict \<Rightarrow> ('fig, unit) res list" where
  "stock_metrics m =
     [emit (Metric ''P/E Ratio'' (dget m ''trailingPE'' (PStr ''N/A''))),
      metric_of ''Dividend Yield'' (pct_if_truthy m ''dividendYield''),
      emit (Metric ''52 Week High'' (dget m ''fiftyTwoWeekHigh'' (PStr ''N/A''))),
      emit (Metric ''52 Week Low'' (dget m ''fiftyTwoWeekLow'' (PStr ''N/A''))),
      emit (Metric ''EPS'' (dget m ''trailingEps'' (PStr ''N/A''))),
      emit (Metric ''Price to Book'' (dget m ''priceToBook'' (PStr ''N/A''))),
      metric_of ''Return on Equity'' (pct_if_truthy m ''returnOnEquity''),
      metric_of ''Profit Margins'' (pct_if_truthy m ''profitMargins''),
      emit (Metric ''Debt to Equity'' (dget m ''debtToEquity'' (PStr ''N/A''))),
      emit (Expander [Lit ''More Financial Metrics''] False),
      then_do (eval (pct_if_not_none m ''revenueGrowth'')) (\<lambda>revenueGrowth.
      then_do (eval (pct_if_not_none m ''grossMargins'')) (\<lambda>grossMargins.
      then_do (eval (pct_if_not_none m ''operatingMargins'')) (\<lambda>operatingMargins.
        seq [emit (WriteLabelled ''**Revenue Growth:**'' revenueGrowth),
             emit (WriteLabelled ''**Gross Margins:**'' grossMargins),
             emit (WriteLabelled ''**Operating Margins:**'' operatingMargins)]))),
      emit (WriteLabelled ''**Quick Ratio:**'' (dget m ''quickRatio'' (PStr ''N/A''))),
      emit (WriteLabelled ''**Current Ratio:**'' (dget m ''currentRatio'' (PStr ''N/A''))),
      emit (WriteLabelled ''**Beta:**'' (dget m ''beta'' (PStr ''N/A''))),
      emit (WriteLabelled ''**Shares Outstanding:**'' (dget m ''sharesOutstanding'' (PStr ''N/A''))),
      emit (WriteLabelled ''**Book Value:**'' (dget m ''bookValue'' (PStr ''N/A''))),
      emit (WriteLabelled ''**Target Mean Price:**'' (dget m ''targetMeanPrice'' (PStr ''N/A'')))]"

definition tab3 :: "string \<Rightarrow> pydict option \<Rightarrow> ('fig, unit) res" where
  "tab3 stock_symbol financial_metrics =
     seq (emit (Subheader (stock_symbol @ '' ''
                  @ (if is_crypto stock_symbol then ''Cryptocurrency'' else ''Financial'')
                  @ '' Metrics'')) #
       (case financial_metrics of
          Some m \<Rightarrow>
            if truthy_dict financial_metrics then
              emit (Columns 2) #
              emit (Metric ''Current Price'' (dget m ''currentPrice'' (PStr ''N/A''))) #
              (if is_crypto stock_symbol then crypto_metrics m else stock_metrics m)
            else [emit (Warning ''Financial metrics not available'')]
        | None \<Rightarrow> [emit (Warning ''Financial metrics not available'')]))"

subsection \<open>Tab 4: news and sentiment (lines 254 to 309)\<close>

text \<open>\<open>sentiment_trend.title()\<close>: only a string has the method.\<close>

fun trend_title :: "pyval \<Rightarrow> exn + string" where
  "trend_title (PStr s) = Inr (py_title s)"
| "trend_title v =
     Inl (AttributeError (quoted (type_name v) @ '' object has no attribute '' @ quoted ''title''))"

text \<open>\<open>f"{sentiment_score:+.2f}"\<close>\<close>

fun score_text :: "pyval \<Rightarrow> exn + string" where
  "score_text (PInt i) = Inr (fmt_2f True (of_int i))"
| "score_text (PFloat r) = Inr (fmt_2f True r)"
| "score_text v = Inl (bad_format_code v)"

fun first_non_str :: "nat \<Rightarrow> pyval list \<Rightarrow> (nat \<times> pyval) option" where
  "first_non_str i [] = None"
| "first_non_str i (PStr s # xs) = first_non_str (Suc i) xs"
| "first_non_str i (v # xs) = Some (i, v)"

fun str_of :: "pyval \<Rightarrow> string" where
  "str_of (PStr s) = s"
| "str_of v = []"

text \<open>\<open>", ".join(key_topics)\<close>: every item must be a string.\<close>

fun join_topics :: "pyval \<Rightarrow> exn + string" where
  "join_topics (PList xs) =
     (case first_non_str 0 xs of
        None \<Rightarrow> Inr (py_join '', '' (map str_of xs))
      | Some (i, v) \<Rightarrow>
          Inl (TypeError (''sequence item '' @ dec_digits i @ '': expected str instance, ''
                          @ type_name v @ '' found'')))"
| "join_topics (PStr s) = Inr (py_join '', '' (map (\<lambda>c. [c]) s))"
| "join_topics v = Inl (TypeError ''can only join an iterable'')"

definition sentiment_color :: "pyval \<Rightarrow> string" where
  "sentiment_color sentiment_trend =
     (if sentiment_trend = PStr ''strongly positive'' then ''darkgreen''
      else if sentiment_trend = PStr ''positive'' then ''green''
      else if sentiment_trend = PStr ''strongly negative'' then ''darkred''
      else if sentiment_trend = PStr ''negative'' then ''red''
      else ''grey'')"

definition show_article :: "nat \<times> pydict \<Rightarrow> ('fig, unit) res" where
  "show_article ia =
     (case ia of (i, article) \<Rightarrow>
        (let title = dget article ''title'' (PStr ''No title'');
             source = dget article ''source'' (PStr ''Unknown'');
             date = dget article ''date'' (PStr ''Unknown date'');
             url = dget article ''url'' (PStr ''#'');
             summary = dget article ''summary'' (PStr ''No summary available'')
         in seq [
           emit (Expander [Lit (dec_digits (i + 1) @ ''. ''), Val title, Lit '' ('', Val source,
                           Lit '')''] False),
           emit (Markdown [Lit ''**Date:** '', Val date]),
           emit (Markdown [Lit ''**Source:** '', Val source]),
           emit (Write summary),
           emit (Markdown [Lit ''[Read full article]('', Val url, Lit '')''])]))"

definition show_sentiment :: "pydict \<Rightarrow> ('fig, unit) res" where
  "show_sentiment sentiment_results =
     (let sentiment_score = dget sentiment_results ''sentiment_score'' (PInt 0);
          sentiment_trend = dget sentiment_results ''trend'' (PStr ''neutral'');
          sentiment_summary = dget sentiment_results ''summary'' (PStr ''No news analysis available'');
          key_topics = dget sentiment_results ''key_topics'' (PList [])
      in seq [
        emit (Markdown [Lit ''### Market Sentiment'']),
        then_do (eval (trend_title sentiment_trend)) (\<lambda>titled.
        then_do (eval (score_text sentiment_score)) (\<lambda>score.
          emit (Markdown [Lit (''<h4 style='' @ [CHR 0x27] @ ''color: ''
                  @ sentiment_color sentiment_trend @ '';'' @ [CHR 0x27] @ ''>Sentiment: ''
                  @ titled @ '' ('' @ score @ '')</h4>'')]))),
        emit (Write sentiment_summary),
        (if truthy key_topics
         then seq [emit (Markdown [Lit ''### Key Topics in News'']),
                   then_do (eval (join_topics key_topics)) (\<lambda>joined. emit (Write (PStr joined)))]
         else seq []),
        emit (Markdown [Lit ''### Recent News Articles''])])"

definition tab4 :: "('bar, 'fig) world \<Rightarrow> string \<Rightarrow> ('fig, unit) res" where
  "tab4 w stock_symbol =
     then_do (emit (Subheader (stock_symbol @ '' News & Sentiment Analysis''))) (\<lambda>_.
     then_do (emit (Spinner ''Fetching latest news...'')) (\<lambda>_.
     then_do (call (Call_get_news_for_asset stock_symbol 5)
                (get_news_for_asset w 1 stock_symbol 5)) (\<lambda>news_articles.
       if news_articles \<noteq> [] then
         then_do (call Call_summarize_news_sentiment (summarize_news_sentiment w news_articles))
           (\<lambda>sentiment_results.
         then_do (show_sentiment sentiment_results) (\<lambda>_.
           seq (map show_article (enumerate 0 news_articles))))
       else
         seq [emit (Info [Lit (''No recent news found for '' @ stock_symbol)]),
              emit (Write (PStr
                ''Try a different symbol or check back later for updated news.''))])))"

section \<open>One analysis request (lines 75 to 315)\<close>

definition tab_names :: "string list" where
  "tab_names = [''Analysis & Recommendation'', ''Company Information'', ''Financial Metrics'',
                ''News & Sentiment'']"

definition on_exception :: "exn \<Rightarrow> ('fig, unit) res" where
  "on_exception e =
     seq [emit (Error [Lit (''An error occurred: '' @ str_exn e)]),
          emit (Info [Lit (''Please check if the stock symbol is correct. For IDX stocks, ''
                  @ ''use the format '' @ quoted ''IDX:SYMBOL'' @ '' (e.g., IDX:ADRO).'')])]"

definition show_tabs ::
  "('bar, 'fig) world \<Rightarrow> string \<Rightarrow> string \<Rightarrow> 'bar list \<Rightarrow> ('fig, unit) res" where
  "show_tabs w api_key stock_symbol stock_data =
     then_do (emit (Tabs tab_names)) (\<lambda>_.
     then_do (inside (Tab 1)
                (tab1 w api_key stock_symbol stock_data (display_data stock_data)))
       (\<lambda>fetched. case fetched of (company_info, financial_metrics) \<Rightarrow>
     then_do (inside (Tab 2) (tab2 stock_symbol company_info)) (\<lambda>_.
     then_do (inside (Tab 3) (tab3 stock_symbol financial_metrics)) (\<lambda>_.
       inside (Tab 4) (tab4 w stock_symbol)))))"

definition analyze :: "('bar, 'fig) world \<Rightarrow> string \<Rightarrow> string \<Rightarrow> ('fig, unit) res" where
  "analyze w api_key stock_symbol =
     then_do (emit (Spinner (''Analyzing '' @ stock_symbol @ ''...''))) (\<lambda>_.
     try_except
       (then_do (call (Call_get_stock_data stock_symbol ''max'')
                   (get_stock_data w stock_symbol ''max'')) (\<lambda>stock_data.
          case stock_data of
            Some rows \<Rightarrow> show_tabs w api_key stock_symbol rows
          | None \<Rightarrow>
              emit (Error [Lit (''Could not retrieve data for '' @ stock_symbol
                      @ ''. Please check the symbol and try again.'')])))
       on_exception)"

section \<open>The page: credential form and analysis form (lines 36 to 75)\<close>

text \<open>
  The session holds the API key, or nothing before the first run. The user's input to a
  run is the content of the two forms and which button was pressed. The title, the
  introduction, the input fields themselves and the footer are the same in every run
  and are left out of the trace.
\<close>

record page_input =
  api_key_input :: string
  submitted :: bool
  stock_symbol_input :: string
  submit_button :: bool

definition page ::
  "('bar, 'fig) world \<Rightarrow> string option \<Rightarrow> page_input
     \<Rightarrow> string option \<times> ('fig, unit) res" where
  "page w session inp =
     (let key0 = (case session of None \<Rightarrow> [] | Some k \<Rightarrow> k);
          saved = (submitted inp \<and> api_key_input inp \<noteq> []);
          key1 = (if saved then api_key_input inp else key0)
      in (Some key1,
          seq [
            emit (Expander [Lit ''Configure Google Gemini API''] (key0 = [])),
            emit (Write (PStr (''To use the AI analysis features, you need to provide a ''
                    @ ''Google Gemini API key.''))),
            (if saved
             then emit (Success [Lit (''API key saved successfully! You can now use AI ''
                          @ ''analysis features.'')])
             else seq []),
            emit (Info [Lit (''Your API key is stored in your session only and will be cleared ''
                    @ ''when you close the browser. It is not stored on our servers.'')]),
            (if submit_button inp \<and> stock_symbol_input inp \<noteq> []
             then analyze w key1 (stock_symbol_input inp)
             else seq [])]))"

text \<open>
  The labels of the attribute rows in a trace, in order: the label of every metric tile and
  of every labelled line.
\<close>

fun label_of :: "'fig event \<Rightarrow> string option" where
  "label_of (UI c (Metric l v)) = Some l"
| "label_of (UI c (WriteLabelled l v)) = Some l"
| "label_of e = None"

definition labels_of :: "'fig event list \<Rightarrow> string list" where
  "labels_of tr = List.map_filter label_of tr"

text \<open>The attribute sets of the two asset kinds, as the script labels them.\<close>

definition crypto_info_labels :: "string list" where
  "crypto_info_labels =
     [''**Name:**'', ''**Category:**'', ''**Symbol:**'', ''**Market:**'', ''**Market Cap:**'',
      ''**Volume (24h):**'', ''**Circulating Supply:**'']"

definition stock_info_labels :: "string list" where
  "stock_info_labels =
     [''**Company Name:**'', ''**Sector:**'', ''**Industry:**'', ''**Country:**'',
      ''**Exchange:**'', ''**Market Cap:**'', ''**Employees:**'', ''**Website:**'']"

definition crypto_metric_labels :: "string list" where
  "crypto_metric_labels =
     [''Current Price'', ''24h Change'', ''24h Volume'', ''Market Cap'', ''Circulating Supply'',
      ''All-Time High'', ''All-Time Low'', ''Max Supply'', ''Total Supply'', ''Volume Ratio'',
      ''**Market Dominance:**'', ''**Trading Volume:**'', ''**Avg Volume (3m):**'',
      ''**Avg Volume (10d):**'', ''**Beta:**'', ''**YTD Return:**'']"

definition stock_metric_labels :: "string list" where
  "stock_metric_labels =
     [''Current Price'', ''P/E Ratio'', ''Dividend Yield'', ''52 Week High'', ''52 Week Low'',
      ''EPS'', ''Price to Book'', ''Return on Equity'', ''Profit Margins'', ''Debt to Equity'',
      ''**Revenue Growth:**'', ''**Gross Margins:**'', ''**Operating Margins:**'',
      ''**Quick Ratio:**'', ''**Current Ratio:**'', ''**Beta:**'', ''**Shares Outstanding:**'',
      ''**Book Value:**'', ''**Target Mean Price:**'']"

text \<open>The trace of the equity metrics when none of the six percentages raises.\<close>

definition stock_metrics_trace ::
  "pydict \<Rightarrow> pyval \<Rightarrow> pyval \<Rightarrow> pyval \<Rightarrow> pyval \<Rightarrow> pyval \<Rightarrow> pyval \<Rightarrow> 'fig event list" where
  "stock_metrics_trace m dy roe pm rg gm om =
     [UI Main (Metric ''P/E Ratio'' (dget m ''trailingPE'' (PStr ''N/A''))),
      UI Main (Metric ''Dividend Yield'' dy),
      UI Main (Metric ''52 Week High'' (dget m ''fiftyTwoWeekHigh'' (PStr ''N/A''))),
      UI Main (Metric ''52 Week Low'' (dget m ''fiftyTwoWeekLow'' (PStr ''N/A''))),
      UI Main (Metric ''EPS'' (dget m ''trailingEps'' (PStr ''N/A''))),
      UI Main (Metric ''Price to Book'' (dget m ''priceToBook'' (PStr ''N/A''))),
      UI Main (Metric ''Return on Equity'' roe),
      UI Main (Metric ''Profit Margins'' pm),
      UI Main (Metric ''Debt to Equity'' (dget m ''debtToEquity'' (PStr ''N/A''))),
      UI Main (Expander [Lit ''More Financial Metrics''] False),
      UI Main (WriteLabelled ''**Revenue Growth:**'' rg),
      UI Main (WriteLabelled ''**Gross Margins:**'' gm),
      UI Main (WriteLabelled ''**Operating Margins:**'' om),
      UI Main (WriteLabelled ''**Quick Ratio:**'' (dget m ''quickRatio'' (PStr ''N/A''))),
      UI Main (WriteLabelled ''**Current Ratio:**'' (dget m ''currentRatio'' (PStr ''N/A''))),
      UI Main (WriteLabelled ''**Beta:**'' (dget m ''beta'' (PStr ''N/A''))),
      UI Main (WriteLabelled ''**Shares Outstanding:**'' (dget m ''sharesOutstanding'' (PStr ''N/A''))),
      UI Main (WriteLabelled ''**Book Value:**'' (dget m ''bookValue'' (PStr ''N/A''))),
      UI Main (WriteLabelled ''**Target Mean Price:**'' (dget m ''targetMeanPrice'' (PStr ''N/A'')))]"

text \<open>The trace of the cryptocurrency metrics when the percentage does not raise.\<close>

definition crypto_metrics_trace :: "pydict \<Rightarrow> pyval \<Rightarrow> 'fig event list" where
  "crypto_metrics_trace m chg =
     [UI Main (Metric ''24h Change'' chg),
      UI Main (Metric ''24h Volume'' (dget m ''volume24Hr'' (dget m ''volume'' (PStr ''N/A'')))),
      UI Main (Metric ''Market Cap'' (dget m ''marketCap'' (PStr ''N/A''))),
      UI Main (Metric ''Circulating Supply'' (dget m ''circulatingSupply'' (PStr ''N/A''))),
      UI Main (Metric ''All-Time High'' (dget m ''fiftyTwoWeekHigh'' (PStr ''N/A''))),
      UI Main (Metric ''All-Time Low'' (dget m ''fiftyTwoWeekLow'' (PStr ''N/A''))),
      UI Main (Metric ''Max Supply'' (dget m ''maxSupply'' (PStr ''N/A''))),
      UI Main (Metric ''Total Supply'' (dget m ''totalSupply'' (PStr ''N/A''))),
      UI Main (Metric ''Volume Ratio'' (dget m ''averageDailyVolume10Day'' (PStr ''N/A''))),
      UI Main (Expander [Lit ''More Financial Metrics''] False),
      UI Main (WriteLabelled ''**Market Dominance:**'' (dget m ''marketDominance'' (PStr ''N/A''))),
      UI Main (WriteLabelled ''**Trading Volume:**'' (dget m ''volume'' (PStr ''N/A''))),
      UI Main (WriteLabelled ''**Avg Volume (3m):**'' (dget m ''averageVolume3Months'' (PStr ''N/A''))),
      UI Main (WriteLabelled ''**Avg Volume (10d):**''
                 (dget m ''averageDailyVolume10Day'' (PStr ''N/A''))),
      UI Main (WriteLabelled ''**Beta:**'' (dget m ''beta'' (PStr ''N/A''))),
      UI Main (WriteLabelled ''**YTD Return:**'' (dget m ''ytdReturn'' (PStr ''N/A'')))]"

text \<open>The widgets of tab 3 that precede the branch on the asset kind.\<close>

definition tab3_head :: "string \<Rightarrow> pydict \<Rightarrow> 'fig event list" where
  "tab3_head stock_symbol m =
     [UI Main (Subheader (stock_symbol @ '' ''
                 @ (if is_crypto stock_symbol then ''Cryptocurrency'' else ''Financial'')
                 @ '' Metrics'')),
      UI Main (Columns 2),
      UI Main (Metric ''Current Price'' (dget m ''currentPrice'' (PStr ''N/A'')))]"

text \<open>A small metrics dictionary for examples.\<close>

definition sample_metrics :: pydict where
  "sample_metrics = [(''trailingPE'', PFloat 30), (''dividendYield'', PFloat (1 / 200))]"

text \<open>
  The percentage metrics of tab 3, as pairs of dictionary key and label: those guarded by
  the truth value of the entry, by asset kind, and those guarded by \<open>is not None\<close>, which
  only the equity branch has.
\<close>

definition truthy_guarded :: "bool \<Rightarrow> (string \<times> string) list" where
  "truthy_guarded crypto =
     (if crypto then [(''regularMarketChangePercent'', ''24h Change'')]
      else [(''dividendYield'', ''Dividend Yield''), (''returnOnEquity'', ''Return on Equity''),
            (''profitMargins'', ''Profit Margins'')])"

definition none_guarded :: "(string \<times> string) list" where
  "none_guarded =
     [(''revenueGrowth'', ''**Revenue Growth:**''), (''grossMargins'', ''**Gross Margins:**''),
      (''operatingMargins'', ''**Operating Margins:**'')]"

text \<open>A metrics dictionary with a dividend yield and a revenue growth of zero.\<close>

definition zero_metrics :: pydict where
  "zero_metrics = [(''trailingPE'', PFloat 30), (''dividendYield'', PInt 0),
                   (''revenueGrowth'', PFloat 0)]"



fun is_number :: "pyval \<Rightarrow> bool" where
  "is_number (PInt i) = True"
| "is_number (PFloat r) = True"
| "is_number v = False"

text \<open>
  The entries that tab 3 formats as percentages are numbers, or are skipped by their guard.
\<close>

definition percent_ok :: "bool \<Rightarrow> pydict \<Rightarrow> bool" where
  "percent_ok crypto m =
     (list_all (\<lambda>kl. \<not> truthy (dget_none m (fst kl)) \<or> is_number (dget_none m (fst kl)))
        (truthy_guarded crypto)
      \<and> (crypto \<or>
         list_all (\<lambda>kl. dget_none m (fst kl) = PNone \<or> is_number (dget_none m (fst kl)))
           none_guarded))"


section \<open>The price-series accessor\<close>

text \<open>
  Modelled from the spec: \<open>get_stock_data\<close> of the \<open>utils.stock_data\<close> module, which
  is not among the sources. The spec gives its contract as
  \<open>fetchPriceSeries(symbol, period) -> PriceSeries | NotFound\<close> and says that it
  returns \<open>NotFound\<close>, not an exception, when the upstream provider does not recognise
  the symbol. The upstream provider is a partial map from symbol and period to a series;
  \<open>NotFound\<close> is the \<open>None\<close> that the script tests for.
\<close>

definition get_stock_data_spec ::
  "(string \<Rightarrow> string \<Rightarrow> 'bar list option) \<Rightarrow> string \<Rightarrow> string \<Rightarrow> exn + 'bar list option" where
  "get_stock_data_spec upstream symbol period =
     (case upstream symbol period of
        None \<Rightarrow> Inr None
      | Some series \<Rightarrow> Inr (Some series))"

section \<open>Sample worlds\<close>

text \<open>
  An upstream provider that knows two symbols, and a world around it in which every
  provider answers: three price bars, the chart is the list of bars it was given, no
  metadata for the cryptocurrency, no news, and an analysis with no field.
\<close>

definition sample_upstream :: "string \<Rightarrow> string \<Rightarrow> nat list option" where
  "sample_upstream symbol period =
     (if symbol = ''AAPL'' \<or> symbol = ''ETH-USD'' then Some [1, 2, 3] else None)"

definition sample_world :: "(nat, nat list) world" where
  "sample_world =
     \<lparr> get_stock_data = (\<lambda>symbol period. Inr (sample_upstream symbol period)),
       plot_stock_chart = (\<lambda>rows. Inr rows),
       get_company_info =
         (\<lambda>symbol. Inr (if symbol = ''ETH-USD'' then Some []
                         else Some [(''longName'', PStr ''Apple Inc.'')])),
       get_financial_metrics = (\<lambda>symbol. Inr (Some sample_metrics)),
       get_news_for_asset = (\<lambda>n symbol max_articles. Inr []),
       generate_stock_analysis = (\<lambda>api_key symbol rows info metrics news. Inr []),
       summarize_news_sentiment = (\<lambda>news. Inr []) \<rparr>"

definition handler_trace :: "exn \<Rightarrow> 'fig event list" where
  "handler_trace e =
     [UI Main (Error [Lit (''An error occurred: '' @ str_exn e)]),
      UI Main (Info [Lit (''Please check if the stock symbol is correct. For IDX stocks, ''
                 @ ''use the format '' @ quoted ''IDX:SYMBOL'' @ '' (e.g., IDX:ADRO).'')])]"

text \<open>A statement none of whose widgets is a warning.\<close>

fun is_warning :: "'fig event \<Rightarrow> bool" where
  "is_warning (UI c (Warning msg)) = True"
| "is_warning e = False"

definition no_warning :: "('fig, 'a) res \<Rightarrow> bool" where
  "no_warning r = list_all (\<lambda>e. \<not> is_warning e) (fst r)"

section \<open>The sentiment summarizer\<close>

text \<open>
  Modelled from the spec: \<open>summarize_news_sentiment\<close> of the \<open>utils.news_collector\<close>
  module, which is not among the sources. The spec describes it as a deterministic function
  from the news items to a result with a score, a trend label, a narrative and key topics;
  it must handle the empty input by returning a neutral, zero-score result rather than
  failing; the trend label is a monotonic step function of the score, from lowest to
  highest, with ties rounded toward neutral. The spec leaves the thresholds and the score,
  narrative and topics of a non-empty list open; they are parameters here. The result is
  the dictionary whose entries the script reads.
\<close>

definition trend_of :: "rat \<times> rat \<times> rat \<times> rat \<Rightarrow> rat \<Rightarrow> string" where
  "trend_of thresholds score =
     (case thresholds of (a, b, c, d) \<Rightarrow>
        if score < a then ''strongly negative''
        else if score < b then ''negative''
        else if score \<le> c then ''neutral''
        else if score \<le> d then ''positive''
        else ''strongly positive'')"

definition summarize_news_sentiment_spec ::
  "(pydict list \<Rightarrow> rat) \<Rightarrow> rat \<times> rat \<times> rat \<times> rat \<Rightarrow> (pydict list \<Rightarrow> string)
     \<Rightarrow> (pydict list \<Rightarrow> string list) \<Rightarrow> pydict list \<Rightarrow> exn + pydict" where
  "summarize_news_sentiment_spec score_of thresholds narrative topics news_items =
     (if news_items = [] then
        Inr [(''sentiment_score'', PInt 0), (''trend'', PStr ''neutral''),
             (''summary'', PStr (narrative [])), (''key_topics'', PList [])]
      else
        Inr [(''sentiment_score'', PFloat (score_of news_items)),
             (''trend'', PStr (trend_of thresholds (score_of news_items))),
             (''summary'', PStr (narrative news_items)),
             (''key_topics'', PList (map PStr (topics news_items)))])"

text \<open>
  The events of tab 1 up to and including the call of the recommendation engine, when the
  chart and the three fetches return.
\<close>

definition tab1_head :: "string \<Rightarrow> 'fig \<Rightarrow> 'fig event list" where
  "tab1_head stock_symbol fig =
     [UI Main (Subheader (stock_symbol @ '' Price Chart'')),
      Call Call_plot_stock_chart,
      UI Main (PlotlyChart fig),
      UI Main (Subheader (''Gemini AI ''
         @ (if is_crypto stock_symbol then ''Cryptocurrency'' else ''Stock'') @ '' Analysis'')),
      Call (Call_get_company_info stock_symbol),
      Call (Call_get_financial_metrics stock_symbol),
      Call (Call_get_news_for_asset stock_symbol 5),
      Call (Call_generate_stock_analysis stock_symbol)]"


text \<open>The sample world with a metadata fetch that raises.\<close>

definition failing_metadata_world :: "(nat, nat list) world" where
  "failing_metadata_world =
     sample_world \<lparr> get_company_info := (\<lambda>symbol. Inl (OtherError ''connection reset'')) \<rparr>"


text \<open>Metrics of a cryptocurrency whose 24h change is zero.\<close>

definition crypto_zero_metrics :: pydict where
  "crypto_zero_metrics = [(''regularMarketChangePercent'', PFloat 0), (''marketCap'', PInt 5)]"

text \<open>A run of the page in which a symbol unknown to the sample provider is submitted.\<close>

definition submit_zzzz :: page_input where
  "submit_zzzz =
     \<lparr> api_key_input = [], submitted = False, stock_symbol_input = ''ZZZZ'',
       submit_button = True \<rparr>"

text \<open>
  Variants of the sample world: the price-data fetch raises; the metrics fetch raises; the
  news fetch of tab 1 raises; the news fetch of tab 4 raises; the metrics fetch returns
  nothing.
\<close>

definition failing_price_world :: "(nat, nat list) world" where
  "failing_price_world =
     sample_world \<lparr> get_stock_data := (\<lambda>symbol period. Inl (OtherError ''timeout'')) \<rparr>"

definition failing_metrics_world :: "(nat, nat list) world" where
  "failing_metrics_world =
     sample_world \<lparr> get_financial_metrics := (\<lambda>symbol. Inl (OtherError ''timeout'')) \<rparr>"

definition failing_news_world :: "(nat, nat list) world" where
  "failing_news_world =
     sample_world \<lparr> get_news_for_asset :=
       (\<lambda>n symbol max_articles. if n = 0 then Inl (OtherError ''timeout'') else Inr []) \<rparr>"

definition late_news_failure_world :: "(nat, nat list) world" where
  "late_news_failure_world =
     sample_world \<lparr> get_news_for_asset :=
       (\<lambda>n symbol max_articles. if n = 0 then Inr [] else Inl (OtherError ''timeout'')) \<rparr>"

definition no_metrics_world :: "(nat, nat list) world" where
  "no_metrics_world = sample_world \<lparr> get_financial_metrics := (\<lambda>symbol. Inr None) \<rparr>"

section \<open>Properties\<close>

subsection \<open>Basic facts about statements\<close>

lemmas letter_defs = py_upper_char_def py_lower_char_def is_letter_def lower_letters_def
  upper_letters_def

lemma py_upper_char_hyphen: "(py_upper_char c = CHR ''-'') = (c = CHR ''-'')"
  by (auto simp add: letter_defs)

lemma is_crypto_hyphen: "is_crypto s = (CHR ''-'' \<in> set s)"
proof -
  have "(CHR ''-'' \<in> py_upper_char ` set s) = (CHR ''-'' \<in> set s)"
  proof
    assume "CHR ''-'' \<in> py_upper_char ` set s"
    then obtain c where "c \<in> set s" and "py_upper_char c = CHR ''-''"
      by (auto simp: image_iff)
    then show "CHR ''-'' \<in> set s"
      by (simp add: py_upper_char_hyphen)
  next
    assume "CHR ''-'' \<in> set s"
    moreover have "py_upper_char (CHR ''-'') = CHR ''-''"
      by (simp add: py_upper_char_hyphen)
    ultimately show "CHR ''-'' \<in> py_upper_char ` set s"
      by (metis image_eqI)
  qed
  then show ?thesis
    by (simp add: is_crypto_def py_upper_def)
qed

lemma then_do_emit [simp]: "then_do (emit w) f = (UI Main w # fst (f ()), snd (f ()))"
  by (simp add: then_do_def emit_def split: prod.splits sum.splits)

lemma seq_emit [simp]: "seq (emit w # ss) = (UI Main w # fst (seq ss), snd (seq ss))"
  by simp

lemma then_do_eval_Inr [simp]: "then_do (eval (Inr x)) f = f x"
  by (simp add: then_do_def eval_def split: prod.splits)

lemma then_do_eval_Inl [simp]: "then_do (eval (Inl e)) f = ([], Inl e)"
  by (simp add: then_do_def eval_def)

lemma then_do_call_Inr [simp]: "then_do (call c (Inr x)) f = (Call c # fst (f x), snd (f x))"
  by (simp add: then_do_def call_def split: prod.splits)

lemma then_do_call_Inl [simp]: "then_do (call c (Inl e)) f = ([Call c], Inl e)"
  by (simp add: then_do_def call_def)

lemma then_do_pair_Inr [simp]: "then_do (tr, Inr x) f = (tr @ fst (f x), snd (f x))"
  by (simp add: then_do_def split: prod.splits)

lemma then_do_pair_Inl [simp]: "then_do (tr, Inl e) f = (tr, Inl e)"
  by (simp add: then_do_def)

subsection \<open>The display window\<close>

text \<open>
  Claim C2. For a price series of length \<open>L\<close> the series that is displayed has length
  \<open>min L 252\<close>; it is the final segment of the fetched series, so it holds the latest
  entries in their original, ascending order.
\<close>

theorem display_data_window:
  "length (display_data xs) = min (length xs) 252
   \<and> suffix (display_data xs) xs
   \<and> display_data xs = drop (length xs - 252) xs"
  by (simp add: display_data_def tail_rows_def suffix_drop)

subsection \<open>Asset kind and attribute sets\<close>

lemma metric_of_Inr [simp]: "metric_of l (Inr v) = emit (Metric l v)"
  by (simp add: metric_of_def)

lemma metric_of_Inl [simp]: "metric_of l (Inl e) = ([], Inl e)"
  by (simp add: metric_of_def)

lemma stock_metrics_all_Inr:
  assumes "pct_if_truthy m ''dividendYield'' = Inr dy"
    and "pct_if_truthy m ''returnOnEquity'' = Inr roe"
    and "pct_if_truthy m ''profitMargins'' = Inr pm"
    and "pct_if_not_none m ''revenueGrowth'' = Inr rg"
    and "pct_if_not_none m ''grossMargins'' = Inr gm"
    and "pct_if_not_none m ''operatingMargins'' = Inr om"
  shows "seq (stock_metrics m) = (stock_metrics_trace m dy roe pm rg gm om, Inr ())"
  using assms by (simp add: stock_metrics_def stock_metrics_trace_def)

lemma stock_metrics_complete:
  assumes "seq (stock_metrics m) = (tr, Inr ())"
  shows "\<exists>dy roe pm rg gm om.
     pct_if_truthy m ''dividendYield'' = Inr dy
     \<and> pct_if_truthy m ''returnOnEquity'' = Inr roe
     \<and> pct_if_truthy m ''profitMargins'' = Inr pm
     \<and> pct_if_not_none m ''revenueGrowth'' = Inr rg
     \<and> pct_if_not_none m ''grossMargins'' = Inr gm
     \<and> pct_if_not_none m ''operatingMargins'' = Inr om
     \<and> tr = stock_metrics_trace m dy roe pm rg gm om"
proof -
  obtain dy where dy: "pct_if_truthy m ''dividendYield'' = Inr dy"
    using assms by (cases "pct_if_truthy m ''dividendYield''") (simp_all add: stock_metrics_def)
  obtain roe where roe: "pct_if_truthy m ''returnOnEquity'' = Inr roe"
    using assms dy by (cases "pct_if_truthy m ''returnOnEquity''") (simp_all add: stock_metrics_def)
  obtain pm where pm: "pct_if_truthy m ''profitMargins'' = Inr pm"
    using assms dy roe by (cases "pct_if_truthy m ''profitMargins''") (simp_all add: stock_metrics_def)
  obtain rg where rg: "pct_if_not_none m ''revenueGrowth'' = Inr rg"
    using assms dy roe pm
    by (cases "pct_if_not_none m ''revenueGrowth''") (simp_all add: stock_metrics_def)
  obtain gm where gm: "pct_if_not_none m ''grossMargins'' = Inr gm"
    using assms dy roe pm rg
    by (cases "pct_if_not_none m ''grossMargins''") (simp_all add: stock_metrics_def)
  obtain om where om: "pct_if_not_none m ''operatingMargins'' = Inr om"
    using assms dy roe pm rg gm
    by (cases "pct_if_not_none m ''operatingMargins''") (simp_all add: stock_metrics_def)
  have "tr = stock_metrics_trace m dy roe pm rg gm om"
    using assms by (simp add: stock_metrics_all_Inr [OF dy roe pm rg gm om])
  with dy roe pm rg gm om show ?thesis by blast
qed

lemma crypto_metrics_Inr:
  assumes "pct_if_truthy m ''regularMarketChangePercent'' = Inr chg"
  shows "seq (crypto_metrics m) = (crypto_metrics_trace m chg, Inr ())"
  using assms by (simp add: crypto_metrics_def crypto_metrics_trace_def)

lemma crypto_metrics_Inl:
  assumes "pct_if_truthy m ''regularMarketChangePercent'' = Inl e"
  shows "seq (crypto_metrics m) = ([], Inl e)"
  using assms by (simp add: crypto_metrics_def)

lemma crypto_metrics_complete:
  assumes "seq (crypto_metrics m) = (tr, Inr ())"
  shows "\<exists>chg. pct_if_truthy m ''regularMarketChangePercent'' = Inr chg
               \<and> tr = crypto_metrics_trace m chg"
proof -
  obtain chg where chg: "pct_if_truthy m ''regularMarketChangePercent'' = Inr chg"
    using assms
    by (cases "pct_if_truthy m ''regularMarketChangePercent''") (simp_all add: crypto_metrics_Inl)
  have "tr = crypto_metrics_trace m chg"
    using assms by (simp add: crypto_metrics_Inr [OF chg])
  with chg show ?thesis by blast
qed

lemma tab3_present:
  assumes "m \<noteq> []"
  shows "tab3 symbol (Some m) =
     then_do (tab3_head symbol m, Inr ())
       (\<lambda>_. seq (if is_crypto symbol then crypto_metrics m else stock_metrics m))"
  using assms by (simp add: tab3_def tab3_head_def)

lemma tab3_absent:
  assumes "\<not> truthy_dict fm"
  shows "tab3 symbol fm =
     ([UI Main (Subheader (symbol @ '' '' @ (if is_crypto symbol then ''Cryptocurrency'' else ''Financial'')
                  @ '' Metrics'')),
       UI Main (Warning ''Financial metrics not available'')], Inr ())"
  using assms by (cases fm) (simp_all add: tab3_def)

lemma tab2_absent:
  assumes "\<not> truthy_dict ci"
  shows "tab2 symbol ci =
     ([UI Main (Subheader (''About '' @ symbol)),
       UI Main (Warning (if is_crypto symbol then ''Cryptocurrency information not available''
                         else ''Company information not available''))], Inr ())"
  using assms by (cases ci) (simp_all add: tab2_def)

lemma tab2_completes: "\<exists>tr. tab2 symbol ci = (tr, Inr ())"
  by (cases ci) (simp_all add: tab2_def)

lemmas labels_simps = labels_of_def List.map_filter_simps

lemma tab2_labels:
  assumes "truthy_dict ci"
  shows "labels_of (fst (tab2 symbol ci)) =
           (if is_crypto symbol then crypto_info_labels else stock_info_labels)"
  using assms
  by (cases ci) (simp_all add: tab2_def labels_simps crypto_info_labels_def stock_info_labels_def)

lemma labels_of_append: "labels_of (xs @ ys) = labels_of xs @ labels_of ys"
  by (simp add: labels_of_def List.map_filter_def)

lemma tab3_labels:
  assumes "truthy_dict fm" and "tab3 symbol fm = (tr :: 'fig event list, Inr ())"
  shows "labels_of tr = (if is_crypto symbol then crypto_metric_labels else stock_metric_labels)"
proof -
  from assms(1) obtain m where fm: "fm = Some m" and ne: "m \<noteq> []"
    by (cases fm) simp_all
  show ?thesis
  proof (cases "is_crypto symbol")
    case True
    obtain tr2 :: "'fig event list" and r where s: "seq (crypto_metrics m) = (tr2, r)"
      by (cases "seq (crypto_metrics m) :: ('fig, unit) res")
    with assms(2) fm ne True have tr: "tr = tab3_head symbol m @ tr2" and "r = Inr ()"
      by (simp_all add: tab3_present)
    with s obtain chg where "tr2 = crypto_metrics_trace m chg"
      using crypto_metrics_complete by blast
    with tr True show ?thesis
      by (simp add: tab3_head_def crypto_metrics_trace_def labels_simps crypto_metric_labels_def)
  next
    case False
    obtain tr2 :: "'fig event list" and r where s: "seq (stock_metrics m) = (tr2, r)"
      by (cases "seq (stock_metrics m) :: ('fig, unit) res")
    with assms(2) fm ne False have tr: "tr = tab3_head symbol m @ tr2" and "r = Inr ()"
      by (simp_all add: tab3_present)
    with s obtain dy roe pm rg gm om where "tr2 = stock_metrics_trace m dy roe pm rg gm om"
      using stock_metrics_complete by blast
    with tr False show ?thesis
      by (simp add: tab3_head_def stock_metrics_trace_def labels_simps stock_metric_labels_def)
  qed
qed

text \<open>
  Claim C1. A symbol is classified as a cryptocurrency exactly when it contains a hyphen,
  so a symbol with the \<open>IDX:\<close> prefix and no hyphen is an equity. The classification
  selects the attribute set: when the metadata is present, tab 2 shows the rows of the
  cryptocurrency set for a symbol with a hyphen and those of the equity set otherwise;
  when the metrics are present and tab 3 is rendered to its end, it shows the metrics of
  the cryptocurrency set for a symbol with a hyphen and those of the equity set otherwise.
\<close>

theorem asset_kind_selects_attribute_set:
  "is_crypto symbol = (CHR ''-'' \<in> set symbol)
   \<and> (truthy_dict ci \<longrightarrow>
        labels_of (fst (tab2 symbol ci :: ('fig, unit) res)) =
          (if CHR ''-'' \<in> set symbol then crypto_info_labels else stock_info_labels))
   \<and> (truthy_dict fm \<and> tab3 symbol fm = (tr :: 'fig event list, Inr ()) \<longrightarrow>
        labels_of tr =
          (if CHR ''-'' \<in> set symbol then crypto_metric_labels else stock_metric_labels))"
  using tab2_labels [of ci symbol] tab3_labels [of fm symbol tr]
  by (auto simp add: is_crypto_hyphen)

subsection \<open>Tab 3 rendered to its end\<close>

lemma tab3_stock_trace:
  assumes "m \<noteq> []" and "\<not> is_crypto symbol"
    and "tab3 symbol (Some m) = (tr :: 'fig event list, Inr ())"
  shows "\<exists>dy roe pm rg gm om.
     pct_if_truthy m ''dividendYield'' = Inr dy
     \<and> pct_if_truthy m ''returnOnEquity'' = Inr roe
     \<and> pct_if_truthy m ''profitMargins'' = Inr pm
     \<and> pct_if_not_none m ''revenueGrowth'' = Inr rg
     \<and> pct_if_not_none m ''grossMargins'' = Inr gm
     \<and> pct_if_not_none m ''operatingMargins'' = Inr om
     \<and> tr = tab3_head symbol m @ stock_metrics_trace m dy roe pm rg gm om"
proof -
  obtain tr2 :: "'fig event list" and r where s: "seq (stock_metrics m) = (tr2, r)"
    by (cases "seq (stock_metrics m) :: ('fig, unit) res")
  with assms have tr: "tr = tab3_head symbol m @ tr2" and "r = Inr ()"
    by (simp_all add: tab3_present)
  with s show ?thesis
    using stock_metrics_complete [of m tr2] by blast
qed

lemma tab3_crypto_trace:
  assumes "m \<noteq> []" and "is_crypto symbol"
    and "tab3 symbol (Some m) = (tr :: 'fig event list, Inr ())"
  shows "\<exists>chg. pct_if_truthy m ''regularMarketChangePercent'' = Inr chg
     \<and> tr = tab3_head symbol m @ crypto_metrics_trace m chg"
proof -
  obtain tr2 :: "'fig event list" and r where s: "seq (crypto_metrics m) = (tr2, r)"
    by (cases "seq (crypto_metrics m) :: ('fig, unit) res")
  with assms have tr: "tr = tab3_head symbol m @ tr2" and "r = Inr ()"
    by (simp_all add: tab3_present)
  with s show ?thesis
    using crypto_metrics_complete [of m tr2] by blast
qed

subsection \<open>Percentages of zero\<close>

lemma fmt_2f_zero: "fmt_2f False 0 = ''0.00''"
  by (simp add: fmt_2f_def round_half_even_def digit_char_def)

lemma pct_if_truthy_zero:
  assumes "map_of m k = Some v" and "v = PInt 0 \<or> v = PFloat 0"
  shows "pct_if_truthy m k = Inr (PStr ''N/A'')"
  using assms by (auto simp: pct_if_truthy_def dget_none_def dget_def)

lemma pct_if_truthy_absent:
  assumes "map_of m k = None"
  shows "pct_if_truthy m k = Inr (PStr ''N/A'')"
  using assms by (simp add: pct_if_truthy_def dget_none_def dget_def)

lemma pct_if_not_none_absent:
  assumes "map_of m k = None"
  shows "pct_if_not_none m k = Inr (PStr ''N/A'')"
  using assms by (simp add: pct_if_not_none_def dget_none_def dget_def)

lemma pct_if_not_none_zero:
  assumes "map_of m k = Some v" and "v = PInt 0 \<or> v = PFloat 0"
  shows "pct_if_not_none m k = Inr (PStr ''0.00%'')"
  using assms by (auto simp: pct_if_not_none_def dget_none_def dget_def fmt_2f_zero)

lemma zero_percent_in_tab3:
  assumes "map_of m k = Some v" and "v = PInt 0 \<or> v = PFloat 0"
    and "tab3 symbol (Some m) = (tr :: 'fig event list, Inr ())"
  shows "((k, label) \<in> set (truthy_guarded (is_crypto symbol)) \<longrightarrow>
            UI Main (Metric label (PStr ''N/A'')) \<in> set tr)
       \<and> (\<not> is_crypto symbol \<and> (k, label) \<in> set none_guarded \<longrightarrow>
            UI Main (WriteLabelled label (PStr ''0.00%'')) \<in> set tr)"
proof -
  from assms(1) have ne: "m \<noteq> []" by auto
  note t = pct_if_truthy_zero [OF assms(1,2)]
  note n = pct_if_not_none_zero [OF assms(1,2)]
  show ?thesis
  proof (cases "is_crypto symbol")
    case True
    from tab3_crypto_trace [OF ne True assms(3)] obtain chg where
      "pct_if_truthy m ''regularMarketChangePercent'' = Inr chg"
      "tr = tab3_head symbol m @ crypto_metrics_trace m chg" by blast
    with True t show ?thesis
      by (auto simp: truthy_guarded_def crypto_metrics_trace_def)
  next
    case False
    from tab3_stock_trace [OF ne False assms(3)] obtain dy roe pm rg gm om where
      "pct_if_truthy m ''dividendYield'' = Inr dy"
      "pct_if_truthy m ''returnOnEquity'' = Inr roe"
      "pct_if_truthy m ''profitMargins'' = Inr pm"
      "pct_if_not_none m ''revenueGrowth'' = Inr rg"
      "pct_if_not_none m ''grossMargins'' = Inr gm"
      "pct_if_not_none m ''operatingMargins'' = Inr om"
      "tr = tab3_head symbol m @ stock_metrics_trace m dy roe pm rg gm om" by blast
    with False t n show ?thesis
      by (auto simp: truthy_guarded_def none_guarded_def stock_metrics_trace_def)
  qed
qed

text \<open>
  Claim C10. In the metrics display, a percentage guarded by the truth value of its entry
  (\<open>dividendYield\<close>, \<open>returnOnEquity\<close>, \<open>profitMargins\<close> for an equity,
  \<open>regularMarketChangePercent\<close> for a cryptocurrency) that is present with value 0 is
  shown as "N/A", which is also what an absent key gives; a percentage guarded by
  \<open>is not None\<close> (\<open>revenueGrowth\<close>, \<open>grossMargins\<close>, \<open>operatingMargins\<close>) that
  is present with value 0 is shown as "0.00%".
\<close>

theorem zero_percentage_display:
  "map_of m k = Some v \<and> (v = PInt 0 \<or> v = PFloat 0) \<and> map_of m' k = None
   \<and> tab3 symbol (Some m) = (tr :: 'fig event list, Inr ())
   \<longrightarrow>
     pct_if_truthy m k = Inr (PStr ''N/A'')
     \<and> pct_if_truthy m' k = pct_if_truthy m k
     \<and> pct_if_not_none m k = Inr (PStr ''0.00%'')
     \<and> ((k, label) \<in> set (truthy_guarded (is_crypto symbol)) \<longrightarrow>
            UI Main (Metric label (PStr ''N/A'')) \<in> set tr)
     \<and> (\<not> is_crypto symbol \<and> (k, label) \<in> set none_guarded \<longrightarrow>
            UI Main (WriteLabelled label (PStr ''0.00%'')) \<in> set tr)"
  using zero_percent_in_tab3 [of m k v symbol tr label]
  by (simp add: pct_if_truthy_zero pct_if_truthy_absent pct_if_not_none_zero)

subsection \<open>Missing metric keys\<close>


lemma pct_if_truthy_ok:
  assumes "\<not> truthy (dget_none m k) \<or> is_number (dget_none m k)"
  shows "\<exists>x. pct_if_truthy m k = Inr x"
proof (cases "map_of m k")
  case None
  then show ?thesis by (simp add: pct_if_truthy_absent)
next
  case (Some v)
  with assms show ?thesis
    by (cases v) (simp_all add: pct_if_truthy_def dget_none_def dget_def)
qed

lemma pct_if_not_none_ok:
  assumes "dget_none m k = PNone \<or> is_number (dget_none m k)"
  shows "\<exists>x. pct_if_not_none m k = Inr x"
proof (cases "map_of m k")
  case None
  then show ?thesis by (simp add: pct_if_not_none_absent)
next
  case (Some v)
  with assms show ?thesis
    by (cases v) (simp_all add: pct_if_not_none_def dget_none_def dget_def)
qed

lemma percent_ok_completes:
  assumes "m \<noteq> []" and "percent_ok (is_crypto symbol) m"
  shows "\<exists>tr :: 'fig event list. tab3 symbol (Some m) = (tr, Inr ())"
proof (cases "is_crypto symbol")
  case True
  with assms(2) obtain chg where "pct_if_truthy m ''regularMarketChangePercent'' = Inr chg"
    using pct_if_truthy_ok [of m "''regularMarketChangePercent''"]
    by (auto simp: percent_ok_def truthy_guarded_def)
  then show ?thesis
    using assms(1) True by (simp add: tab3_present crypto_metrics_Inr)
next
  case False
  with assms(2) obtain dy roe pm rg gm om where
    "pct_if_truthy m ''dividendYield'' = Inr dy"
    "pct_if_truthy m ''returnOnEquity'' = Inr roe"
    "pct_if_truthy m ''profitMargins'' = Inr pm"
    "pct_if_not_none m ''revenueGrowth'' = Inr rg"
    "pct_if_not_none m ''grossMargins'' = Inr gm"
    "pct_if_not_none m ''operatingMargins'' = Inr om"
    using pct_if_truthy_ok [of m "''dividendYield''"] pct_if_truthy_ok [of m "''returnOnEquity''"]
      pct_if_truthy_ok [of m "''profitMargins''"] pct_if_not_none_ok [of m "''revenueGrowth''"]
      pct_if_not_none_ok [of m "''grossMargins''"] pct_if_not_none_ok [of m "''operatingMargins''"]
    by (auto simp: percent_ok_def truthy_guarded_def none_guarded_def)
  then show ?thesis
    using assms(1) False by (simp add: tab3_present stock_metrics_all_Inr)
qed




subsection \<open>The request as a whole\<close>

lemma inside_pair [simp]: "inside c (tr, r) = (map (place c) tr, r)"
  by (simp add: inside_def)

lemma try_except_Inr [simp]: "try_except (tr, Inr x) h = (tr, Inr x)"
  by (simp add: try_except_def)

lemma try_except_Inl [simp]: "try_except (tr, Inl e) h = (tr @ fst (h e), snd (h e))"
  by (simp add: try_except_def split: prod.splits)

lemma on_exception_trace [simp]: "on_exception e = (handler_trace e, Inr ())"
  by (simp add: on_exception_def handler_trace_def)

lemma analyze_fetch_raises:
  assumes "get_stock_data w symbol ''max'' = Inl e"
  shows "analyze w key symbol =
     (UI Main (Spinner (''Analyzing '' @ symbol @ ''...'')) # Call (Call_get_stock_data symbol ''max'')
        # handler_trace e, Inr ())"
  using assms by (simp add: analyze_def)

lemma analyze_not_found:
  assumes "get_stock_data w symbol ''max'' = Inr None"
  shows "analyze w key symbol =
     ([UI Main (Spinner (''Analyzing '' @ symbol @ ''...'')),
       Call (Call_get_stock_data symbol ''max''),
       UI Main (Error [Lit (''Could not retrieve data for '' @ symbol
                  @ ''. Please check the symbol and try again.'')])], Inr ())"
  using assms by (simp add: analyze_def emit_def)

lemma analyze_with_data:
  assumes "get_stock_data w symbol ''max'' = Inr (Some rows)"
    and "show_tabs w key symbol rows = (ts, r)"
  shows "analyze w key symbol =
     (UI Main (Spinner (''Analyzing '' @ symbol @ ''...'')) # Call (Call_get_stock_data symbol ''max'')
        # ts @ (case r of Inl e \<Rightarrow> handler_trace e | Inr u \<Rightarrow> []), Inr ())"
  using assms by (cases r) (simp_all add: analyze_def)

lemma show_tabs_tab1_raises:
  assumes "tab1 w key symbol rows (display_data rows) = (t1, Inl e)"
  shows "show_tabs w key symbol rows = (UI Main (Tabs tab_names) # map (place (Tab 1)) t1, Inl e)"
  using assms by (simp add: show_tabs_def)

lemma show_tabs_tab1_done:
  assumes "tab1 w key symbol rows (display_data rows) = (t1, Inr (ci, fm))"
    and "tab2 symbol ci = (t2, Inr ())"
    and "tab3 symbol fm = (t3, r3)"
    and "tab4 w symbol = (t4, r4)"
  shows "show_tabs w key symbol rows =
     (UI Main (Tabs tab_names) # map (place (Tab 1)) t1 @ map (place (Tab 2)) t2
        @ map (place (Tab 3)) t3 @ (case r3 of Inl e \<Rightarrow> [] | Inr u \<Rightarrow> map (place (Tab 4)) t4),
      case r3 of Inl e \<Rightarrow> Inl e | Inr u \<Rightarrow> r4)"
  using assms by (cases r3) (simp_all add: show_tabs_def)

lemma then_do_unit_end [simp]: "then_do (tr, r) (\<lambda>_. ([], Inr ())) = (tr, r)"
  by (cases r) simp_all

lemma page_runs_analyze:
  assumes "submit_button inp" and "stock_symbol_input inp \<noteq> []"
    and "analyze w (if submitted inp \<and> api_key_input inp \<noteq> [] then api_key_input inp
                     else case session of None \<Rightarrow> [] | Some k \<Rightarrow> k)
           (stock_symbol_input inp) = (tr, r)"
  shows "suffix tr (fst (snd (page w session inp))) \<and> snd (snd (page w session inp)) = r"
  using assms by (auto simp: page_def Let_def intro!: suffix_ConsI)

text \<open>
  Claim C7. When the upstream provider does not recognise the symbol, the price-data
  fetch returns the not-found value and raises nothing. The request then consists of one
  call of the fetch, so there is no retry, followed by the error message; no tab, chart,
  analysis, metric or news widget is rendered and no other provider is called. A submitted
  form with a non-empty symbol ends with exactly this request.
\<close>

theorem unknown_symbol_is_terminal:
  "get_stock_data w = get_stock_data_spec upstream \<and> upstream symbol ''max'' = None
   \<longrightarrow>
     get_stock_data w symbol ''max'' = Inr None
     \<and> analyze w key symbol =
         ([UI Main (Spinner (''Analyzing '' @ symbol @ ''...'')),
           Call (Call_get_stock_data symbol ''max''),
           UI Main (Error [Lit (''Could not retrieve data for '' @ symbol
                      @ ''. Please check the symbol and try again.'')])], Inr ())
     \<and> (submit_button inp \<and> stock_symbol_input inp = symbol \<and> symbol \<noteq> [] \<longrightarrow>
          suffix [UI Main (Spinner (''Analyzing '' @ symbol @ ''...'')),
                  Call (Call_get_stock_data symbol ''max''),
                  UI Main (Error [Lit (''Could not retrieve data for '' @ symbol
                             @ ''. Please check the symbol and try again.'')])]
            (fst (snd (page w session inp)))
          \<and> snd (snd (page w session inp)) = Inr ())"
proof (intro impI, elim conjE)
  assume w: "get_stock_data w = get_stock_data_spec upstream"
    and u: "upstream symbol ''max'' = None"
  have nf: "get_stock_data w symbol ''max'' = Inr None"
    using w u by (simp add: get_stock_data_spec_def)
  note a = analyze_not_found [OF nf]
  have "submit_button inp \<and> stock_symbol_input inp = symbol \<and> symbol \<noteq> [] \<longrightarrow>
          suffix [UI Main (Spinner (''Analyzing '' @ symbol @ ''...'')),
                  Call (Call_get_stock_data symbol ''max''),
                  UI Main (Error [Lit (''Could not retrieve data for '' @ symbol
                             @ ''. Please check the symbol and try again.'')])]
            (fst (snd (page w session inp)))
          \<and> snd (snd (page w session inp)) = Inr ()"
    using page_runs_analyze [of inp w session _ "Inr ()"] a by auto
  with nf a show
    "get_stock_data w symbol ''max'' = Inr None
     \<and> analyze w key symbol =
         ([UI Main (Spinner (''Analyzing '' @ symbol @ ''...'')),
           Call (Call_get_stock_data symbol ''max''),
           UI Main (Error [Lit (''Could not retrieve data for '' @ symbol
                      @ ''. Please check the symbol and try again.'')])], Inr ())
     \<and> (submit_button inp \<and> stock_symbol_input inp = symbol \<and> symbol \<noteq> [] \<longrightarrow>
          suffix [UI Main (Spinner (''Analyzing '' @ symbol @ ''...'')),
                  Call (Call_get_stock_data symbol ''max''),
                  UI Main (Error [Lit (''Could not retrieve data for '' @ symbol
                             @ ''. Please check the symbol and try again.'')])]
            (fst (snd (page w session inp)))
          \<and> snd (snd (page w session inp)) = Inr ())"
    by blast
qed

subsection \<open>Placeholders of the sections\<close>

lemma placed_member: "(UI c' x \<in> place c ` S) = (c' = c \<and> (\<exists>c0. UI c0 x \<in> S))"
proof
  assume "UI c' x \<in> place c ` S"
  then obtain e where e: "e \<in> S" and p: "place c e = UI c' x" by auto
  then show "c' = c \<and> (\<exists>c0. UI c0 x \<in> S)"
    by (cases e) auto
next
  assume "c' = c \<and> (\<exists>c0. UI c0 x \<in> S)"
  then obtain c0 where "c' = c" and "UI c0 x \<in> S" by blast
  then show "UI c' x \<in> place c ` S"
    by (metis image_eqI place.simps(1))
qed

lemma no_warning_emit: "no_warning (emit x) = (\<forall>msg. x \<noteq> Warning msg)"
  by (cases x) (simp_all add: no_warning_def emit_def)

lemma no_warning_then_do_eval:
  assumes "\<And>x. no_warning (f x)"
  shows "no_warning (then_do (eval v) f)"
  using assms by (cases v) (simp_all add: no_warning_def)

lemma no_warning_metric_of: "no_warning (metric_of l v)"
  by (cases v) (simp_all add: no_warning_emit, simp add: no_warning_def)

lemma no_warning_then_do:
  assumes "no_warning r" and "\<And>x. no_warning (f x)"
  shows "no_warning (then_do r f)"
proof (cases r)
  case (Pair tr y)
  with assms show ?thesis
    by (cases y) (simp_all add: no_warning_def)
qed

lemma no_warning_seq:
  assumes "\<And>s. s \<in> set ss \<Longrightarrow> no_warning s"
  shows "no_warning (seq ss)"
  using assms
proof (induction ss)
  case Nil
  show ?case by (simp add: no_warning_def)
next
  case (Cons s ss)
  then show ?case by (simp add: no_warning_then_do)
qed

lemma no_warning_pair: "no_warning (tr, r) = list_all (\<lambda>e. \<not> is_warning e) tr"
  by (simp add: no_warning_def)

lemma no_warning_member:
  assumes "no_warning (tr, r)"
  shows "UI c (Warning msg) \<notin> set tr"
  using assms by (auto simp: no_warning_def list_all_iff)

lemma no_warning_stock_metrics: "no_warning (seq (stock_metrics m))"
  by (rule no_warning_seq)
    (auto simp: stock_metrics_def no_warning_emit no_warning_metric_of no_warning_pair
      intro!: no_warning_then_do_eval no_warning_seq)

lemma no_warning_crypto_metrics: "no_warning (seq (crypto_metrics m))"
  by (rule no_warning_seq)
    (auto simp: crypto_metrics_def no_warning_emit no_warning_metric_of)

lemma tab3_present_no_warning:
  assumes "truthy_dict fm"
  shows "no_warning (tab3 symbol fm)"
proof -
  from assms obtain m where fm: "fm = Some m" and ne: "m \<noteq> []"
    by (cases fm) simp_all
  have "no_warning (tab3_head symbol m, Inr ())"
    by (simp add: no_warning_def tab3_head_def)
  then show ?thesis
    unfolding fm tab3_present [OF ne]
    by (rule no_warning_then_do) (simp add: no_warning_stock_metrics no_warning_crypto_metrics)
qed

lemma tab2_present_no_warning:
  assumes "truthy_dict ci"
  shows "no_warning (tab2 symbol ci)"
  using assms by (cases ci) (simp_all add: tab2_def no_warning_def)

lemma tab2_present_shows_no_warning:
  assumes "truthy_dict ci" and "tab2 symbol ci = (t2 :: 'fig event list, r)"
  shows "UI c (Warning msg) \<notin> set t2"
proof -
  have "no_warning (tab2 symbol ci :: ('fig, unit) res)"
    using assms(1) by (rule tab2_present_no_warning)
  then have "no_warning (t2, r)"
    by (simp add: assms(2))
  then show ?thesis
    by (rule no_warning_member)
qed

lemma tab3_present_shows_no_warning:
  assumes "truthy_dict fm" and "tab3 symbol fm = (t3 :: 'fig event list, r)"
  shows "UI c (Warning msg) \<notin> set t3"
proof -
  have "no_warning (tab3 symbol fm :: ('fig, unit) res)"
    using assms(1) by (rule tab3_present_no_warning)
  then have "no_warning (t3, r)"
    by (simp add: assms(2))
  then show ?thesis
    by (rule no_warning_member)
qed

lemma tab2_head: "\<exists>rest. tab2 symbol ci = (UI Main (Subheader (''About '' @ symbol)) # rest, Inr ())"
  by (cases ci) (simp_all add: tab2_def)

lemma tab3_starts:
  assumes "tab3 symbol fm = (t3, r3)"
  shows "\<exists>rest. t3 =
     UI Main (Subheader (symbol @ '' '' @ (if is_crypto symbol then ''Cryptocurrency'' else ''Financial'')
                @ '' Metrics'')) # rest"
  using assms by (auto simp: tab3_def)

lemma tab4_starts:
  assumes "tab4 w symbol = (t4, r4)"
  shows "\<exists>rest. t4 = UI Main (Subheader (symbol @ '' News & Sentiment Analysis'')) # rest"
  using assms by (auto simp: tab4_def)

lemma analyze_tab1_done:
  assumes "get_stock_data w symbol ''max'' = Inr (Some rows)"
    and "tab1 w key symbol rows (display_data rows) = (t1, Inr (ci, fm))"
    and "tab2 symbol ci = (t2, Inr ())"
    and "tab3 symbol fm = (t3, r3)"
    and "tab4 w symbol = (t4, r4)"
  shows "analyze w key symbol =
     (UI Main (Spinner (''Analyzing '' @ symbol @ ''...'')) # Call (Call_get_stock_data symbol ''max'')
        # UI Main (Tabs tab_names) # map (place (Tab 1)) t1 @ map (place (Tab 2)) t2
        @ map (place (Tab 3)) t3
        @ (case r3 of
             Inl e \<Rightarrow> handler_trace e
           | Inr u \<Rightarrow> map (place (Tab 4)) t4
                        @ (case r4 of Inl e \<Rightarrow> handler_trace e | Inr u \<Rightarrow> [])),
      Inr ())"
proof -
  note st = show_tabs_tab1_done [OF assms(2-5)]
  show ?thesis
    unfolding analyze_with_data [OF assms(1) st]
    by (cases r3; cases r4) simp_all
qed

lemma tab_widget_in_request:
  assumes "get_stock_data w symbol ''max'' = Inr (Some rows)"
    and "tab1 w key symbol rows (display_data rows) = (t1, Inr (ci, fm))"
    and "tab2 symbol ci = (t2, Inr ())"
    and "tab3 symbol fm = (t3, r3)"
    and "tab4 w symbol = (t4, r4)"
    and "analyze w key symbol = (tr, r)"
  shows "r = Inr ()"
    and "(UI (Tab 2) x \<in> set tr) = (\<exists>c. UI c x \<in> set t2)"
    and "(UI (Tab 3) x \<in> set tr) = (\<exists>c. UI c x \<in> set t3)"
    and "(UI (Tab 4) x \<in> set tr) = ((\<exists>u. r3 = Inr u) \<and> (\<exists>c. UI c x \<in> set t4))"
proof -
  note a = analyze_tab1_done [OF assms(1-5)]
  with assms(6) show "r = Inr ()" by simp
  from a assms(6) show "(UI (Tab 2) x \<in> set tr) = (\<exists>c. UI c x \<in> set t2)"
    by (cases r3; cases r4) (auto simp: placed_member handler_trace_def)
  from a assms(6) show "(UI (Tab 3) x \<in> set tr) = (\<exists>c. UI c x \<in> set t3)"
    by (cases r3; cases r4) (auto simp: placed_member handler_trace_def)
  from a assms(6) show
    "(UI (Tab 4) x \<in> set tr) = ((\<exists>u. r3 = Inr u) \<and> (\<exists>c. UI c x \<in> set t4))"
    by (cases r3; cases r4) (auto simp: placed_member handler_trace_def)
qed

text \<open>
  Claim C8. For a symbol with price data, once the first tab has rendered with metadata
  \<open>ci\<close> and metrics \<open>fm\<close>: the request ends without an unhandled error; tabs 2 and 3
  are always entered. If the metadata is empty, tab 2 shows its placeholder
  ("Cryptocurrency information not available" for a cryptocurrency, "Company information
  not available" for an equity) and no attribute row; if it is present, tab 2 shows no
  placeholder. If the metrics are empty, tab 3 shows "Financial metrics not available" and
  no metric, and tab 4 is still entered; if they are present, tab 3 shows no placeholder.
  Whenever tab 3 renders to its end, tab 4 is entered.
\<close>

theorem empty_result_placeholder:
  "get_stock_data w symbol ''max'' = Inr (Some rows)
   \<and> tab1 w key symbol rows (display_data rows) = (t1, Inr (ci, fm))
   \<and> analyze w key symbol = (tr :: 'fig event list, r)
   \<longrightarrow>
     r = Inr ()
     \<and> UI (Tab 2) (Subheader (''About '' @ symbol)) \<in> set tr
     \<and> UI (Tab 3) (Subheader (symbol @ '' ''
            @ (if is_crypto symbol then ''Cryptocurrency'' else ''Financial'') @ '' Metrics'')) \<in> set tr
     \<and> (if truthy_dict ci then (\<forall>msg. UI (Tab 2) (Warning msg) \<notin> set tr)
         else UI (Tab 2) (Warning (if is_crypto symbol then ''Cryptocurrency information not available''
                                   else ''Company information not available'')) \<in> set tr
              \<and> (\<forall>l v. UI (Tab 2) (WriteLabelled l v) \<notin> set tr))
     \<and> (if truthy_dict fm then (\<forall>msg. UI (Tab 3) (Warning msg) \<notin> set tr)
         else UI (Tab 3) (Warning ''Financial metrics not available'') \<in> set tr
              \<and> (\<forall>l v. UI (Tab 3) (Metric l v) \<notin> set tr)
              \<and> UI (Tab 4) (Subheader (symbol @ '' News & Sentiment Analysis'')) \<in> set tr)
     \<and> ((\<exists>t3 :: 'fig event list. tab3 symbol fm = (t3, Inr ())) \<longrightarrow>
          UI (Tab 4) (Subheader (symbol @ '' News & Sentiment Analysis'')) \<in> set tr)"
proof (intro impI, elim conjE)
  assume gd: "get_stock_data w symbol ''max'' = Inr (Some rows)"
    and t1: "tab1 w key symbol rows (display_data rows) = (t1, Inr (ci, fm))"
    and an: "analyze w key symbol = (tr, r)"
  obtain t2 :: "'fig event list" and rest2 where
    t2: "tab2 symbol ci = (t2, Inr ())" and h2: "t2 = UI Main (Subheader (''About '' @ symbol)) # rest2"
    using tab2_head [of symbol ci] by blast
  obtain t3 :: "'fig event list" and r3 where t3: "tab3 symbol fm = (t3, r3)"
    by (cases "tab3 symbol fm :: ('fig, unit) res")
  obtain rest3 :: "'fig event list" where
    h3: "t3 = UI Main (Subheader (symbol @ '' ''
            @ (if is_crypto symbol then ''Cryptocurrency'' else ''Financial'') @ '' Metrics'')) # rest3"
    using tab3_starts [OF t3] by blast
  obtain t4 :: "'fig event list" and r4 where t4: "tab4 w symbol = (t4, r4)"
    by (cases "tab4 w symbol")
  obtain rest4 :: "'fig event list" where
    h4: "t4 = UI Main (Subheader (symbol @ '' News & Sentiment Analysis'')) # rest4"
    using tab4_starts [OF t4] by blast
  note m = tab_widget_in_request [OF gd t1 t2 t3 t4 an]
  have c1: "r = Inr ()" by (rule m(1))
  have c2: "UI (Tab 2) (Subheader (''About '' @ symbol)) \<in> set tr"
    unfolding m(2) h2 by auto
  have c3: "UI (Tab 3) (Subheader (symbol @ '' ''
            @ (if is_crypto symbol then ''Cryptocurrency'' else ''Financial'') @ '' Metrics'')) \<in> set tr"
    unfolding m(3) h3 by auto
  have c4: "if truthy_dict ci then (\<forall>msg. UI (Tab 2) (Warning msg) \<notin> set tr)
         else UI (Tab 2) (Warning (if is_crypto symbol then ''Cryptocurrency information not available''
                                   else ''Company information not available'')) \<in> set tr
              \<and> (\<forall>l v. UI (Tab 2) (WriteLabelled l v) \<notin> set tr)"
  proof (cases "truthy_dict ci")
    case True
    then show ?thesis
      using tab2_present_shows_no_warning [OF True t2] unfolding m(2) by auto
  next
    case False
    with t2 have
      "t2 = [UI Main (Subheader (''About '' @ symbol)),
             UI Main (Warning (if is_crypto symbol then ''Cryptocurrency information not available''
                               else ''Company information not available''))]"
      by (simp add: tab2_absent)
    then show ?thesis
      using False unfolding m(2) by auto
  qed
  have c6: "(\<exists>t3 :: 'fig event list. tab3 symbol fm = (t3, Inr ())) \<longrightarrow>
          UI (Tab 4) (Subheader (symbol @ '' News & Sentiment Analysis'')) \<in> set tr"
    unfolding m(4) h4 using t3 by auto
  have c5: "if truthy_dict fm then (\<forall>msg. UI (Tab 3) (Warning msg) \<notin> set tr)
         else UI (Tab 3) (Warning ''Financial metrics not available'') \<in> set tr
              \<and> (\<forall>l v. UI (Tab 3) (Metric l v) \<notin> set tr)
              \<and> UI (Tab 4) (Subheader (symbol @ '' News & Sentiment Analysis'')) \<in> set tr"
  proof (cases "truthy_dict fm")
    case True
    then show ?thesis
      using tab3_present_shows_no_warning [OF True t3] unfolding m(3) by auto
  next
    case False
    with t3 have
      e: "t3 = [UI Main (Subheader (symbol @ '' ''
                  @ (if is_crypto symbol then ''Cryptocurrency'' else ''Financial'') @ '' Metrics'')),
                UI Main (Warning ''Financial metrics not available'')]"
      and r3: "r3 = Inr ()"
      by (simp_all add: tab3_absent)
    have "UI (Tab 4) (Subheader (symbol @ '' News & Sentiment Analysis'')) \<in> set tr"
      unfolding m(4) h4 using r3 by auto
    then show ?thesis
      using False e unfolding m(3) by auto
  qed
  from c1 c2 c3 c4 c5 c6 show
    "r = Inr ()
     \<and> UI (Tab 2) (Subheader (''About '' @ symbol)) \<in> set tr
     \<and> UI (Tab 3) (Subheader (symbol @ '' ''
            @ (if is_crypto symbol then ''Cryptocurrency'' else ''Financial'') @ '' Metrics'')) \<in> set tr
     \<and> (if truthy_dict ci then (\<forall>msg. UI (Tab 2) (Warning msg) \<notin> set tr)
         else UI (Tab 2) (Warning (if is_crypto symbol then ''Cryptocurrency information not available''
                                   else ''Company information not available'')) \<in> set tr
              \<and> (\<forall>l v. UI (Tab 2) (WriteLabelled l v) \<notin> set tr))
     \<and> (if truthy_dict fm then (\<forall>msg. UI (Tab 3) (Warning msg) \<notin> set tr)
         else UI (Tab 3) (Warning ''Financial metrics not available'') \<in> set tr
              \<and> (\<forall>l v. UI (Tab 3) (Metric l v) \<notin> set tr)
              \<and> UI (Tab 4) (Subheader (symbol @ '' News & Sentiment Analysis'')) \<in> set tr)
     \<and> ((\<exists>t3 :: 'fig event list. tab3 symbol fm = (t3, Inr ())) \<longrightarrow>
          UI (Tab 4) (Subheader (symbol @ '' News & Sentiment Analysis'')) \<in> set tr)"
    by blast
qed

lemma sample_world_calls:
  "get_stock_data sample_world ''ETH-USD'' ''max'' = Inr (Some [1, 2, 3])"
  "get_stock_data sample_world ''AAPL'' ''max'' = Inr (Some [1, 2, 3])"
  "plot_stock_chart sample_world rows = Inr rows"
  "get_company_info sample_world ''ETH-USD'' = Inr (Some [])"
  "get_company_info sample_world ''AAPL'' = Inr (Some [(''longName'', PStr ''Apple Inc.'')])"
  "get_financial_metrics sample_world symbol = Inr (Some sample_metrics)"
  "get_news_for_asset sample_world n symbol k = Inr []"
  "generate_stock_analysis sample_world key symbol rows ci fm news = Inr []"
  by (simp_all add: sample_world_def sample_upstream_def)

lemma show_recommendation_empty:
  "show_recommendation [] =
     ([UI Main (Info [Lit ''## Recommendation: '', Val (PStr ''NEUTRAL''), Lit ('' '' @ emoji_scales)]),
       UI Main (Markdown [Lit ''### Analysis Summary'']),
       UI Main (Write (PStr ''No summary available'')),
       UI Main (Markdown [Lit ''### Risk Factors'']),
       UI Main (Expander [Lit ''Detailed Analysis''] False),
       UI Main (Write (PStr ''No detailed analysis available''))], Inr ())"
  by (simp add: show_recommendation_def dget_def)

subsection \<open>Sentiment of an empty news list\<close>

lemma fmt_2f_plus_zero: "fmt_2f True 0 = ''+0.00''"
  by (simp add: fmt_2f_def round_half_even_def digit_char_def)

lemma py_title_neutral: "py_title ''neutral'' = ''Neutral''"
  by (simp add: py_title_def letter_defs)

text \<open>
  Claim C9. Applied to an empty news list the summarizer does not fail: it returns a
  result whose score is 0 and whose trend is "neutral". Shown by the script, that result
  gives the grey heading "Sentiment: Neutral (+0.00)".
\<close>

theorem summarizer_empty_news:
  "\<exists>result.
     summarize_news_sentiment_spec score_of thresholds narrative topics [] = Inr result
     \<and> dget_none result ''sentiment_score'' = PInt 0
     \<and> dget_none result ''trend'' = PStr ''neutral''
     \<and> UI Main (Markdown [Lit (''<h4 style='' @ quoted ''color: grey;''
                               @ ''>Sentiment: Neutral (+0.00)</h4>'')])
          \<in> set (fst (show_sentiment result :: ('fig, unit) res))"
  by (simp add: summarize_news_sentiment_spec_def dget_none_def dget_def show_sentiment_def
      sentiment_color_def py_title_neutral fmt_2f_plus_zero quoted_def)

subsection \<open>The recommendation call\<close>

lemma tab1_calls_return:
  assumes "plot_stock_chart w shown = Inr fig"
    and "get_company_info w symbol = Inr ci"
    and "get_financial_metrics w symbol = Inr fm"
    and "get_news_for_asset w 0 symbol 5 = Inr news"
    and "generate_stock_analysis w key symbol rows ci fm news = Inr ar"
    and "show_recommendation ar = (rt, rr)"
  shows "tab1 w key symbol rows shown =
     (tab1_head symbol fig @ rt, case rr of Inl e \<Rightarrow> Inl e | Inr u \<Rightarrow> Inr (ci, fm))"
  using assms by (cases rr) (simp_all add: tab1_def tab1_head_def eval_def)


lemma analyze_tab1_raises:
  assumes "get_stock_data w symbol ''max'' = Inr (Some rows)"
    and "tab1 w key symbol rows (display_data rows) = (t1, Inl e)"
  shows "analyze w key symbol =
     (UI Main (Spinner (''Analyzing '' @ symbol @ ''...'')) # Call (Call_get_stock_data symbol ''max'')
        # UI Main (Tabs tab_names) # map (place (Tab 1)) t1 @ handler_trace e, Inr ())"
  using analyze_with_data [OF assms(1) show_tabs_tab1_raises [OF assms(2)]] by simp








subsection \<open>Failing fetches\<close>

lemma tab1_company_info_raises:
  assumes "plot_stock_chart w shown = Inr fig"
    and "get_company_info w symbol = Inl e"
  shows "tab1 w key symbol rows shown = (take 5 (tab1_head symbol fig), Inl e)"
  using assms by (simp add: tab1_def tab1_head_def)

lemma tab1_metrics_raises:
  assumes "plot_stock_chart w shown = Inr fig"
    and "get_company_info w symbol = Inr ci"
    and "get_financial_metrics w symbol = Inl e"
  shows "tab1 w key symbol rows shown = (take 6 (tab1_head symbol fig), Inl e)"
  using assms by (simp add: tab1_def tab1_head_def)

lemma tab1_news_raises:
  assumes "plot_stock_chart w shown = Inr fig"
    and "get_company_info w symbol = Inr ci"
    and "get_financial_metrics w symbol = Inr fm"
    and "get_news_for_asset w 0 symbol 5 = Inl e"
  shows "tab1 w key symbol rows shown = (take 7 (tab1_head symbol fig), Inl e)"
  using assms by (simp add: tab1_def tab1_head_def)

lemma tab4_no_news:
  assumes "get_news_for_asset w 1 symbol 5 = Inr []"
  shows "tab4 w symbol =
     ([UI Main (Subheader (symbol @ '' News & Sentiment Analysis'')),
       UI Main (Spinner ''Fetching latest news...''),
       Call (Call_get_news_for_asset symbol 5),
       UI Main (Info [Lit (''No recent news found for '' @ symbol)]),
       UI Main (Write (PStr ''Try a different symbol or check back later for updated news.''))],
      Inr ())"
  using assms by (simp add: tab4_def)

lemma tab4_news_raises:
  assumes "get_news_for_asset w 1 symbol 5 = Inl e"
  shows "tab4 w symbol =
     ([UI Main (Subheader (symbol @ '' News & Sentiment Analysis'')),
       UI Main (Spinner ''Fetching latest news...''),
       Call (Call_get_news_for_asset symbol 5)], Inl e)"
  using assms by (simp add: tab4_def)



lemma failing_metadata_world_calls:
  "get_stock_data failing_metadata_world ''AAPL'' ''max'' = Inr (Some [1, 2, 3])"
  "plot_stock_chart failing_metadata_world rows = Inr rows"
  "get_company_info failing_metadata_world symbol = Inl (OtherError ''connection reset'')"
  "get_financial_metrics failing_metadata_world symbol = Inr (Some sample_metrics)"
  "get_news_for_asset failing_metadata_world n symbol k = Inr []"
  by (simp_all add: failing_metadata_world_def sample_world_def sample_upstream_def)

text \<open>
  Claim C4 as stated fails when a fetch raises: with the metadata fetch raising while the
  price data, the metrics and the news are available, the request stops in tab 1; tabs 2, 3
  and 4 show nothing, neither data nor placeholder.
\<close>

theorem fetch_failure_counterexample:
  "get_company_info failing_metadata_world ''AAPL'' = Inl (OtherError ''connection reset'')
   \<and> get_financial_metrics failing_metadata_world ''AAPL'' = Inr (Some sample_metrics)
   \<and> analyze failing_metadata_world [] ''AAPL'' =
       ([UI Main (Spinner ''Analyzing AAPL...''),
         Call (Call_get_stock_data ''AAPL'' ''max''),
         UI Main (Tabs tab_names),
         UI (Tab 1) (Subheader ''AAPL Price Chart''),
         Call Call_plot_stock_chart,
         UI (Tab 1) (PlotlyChart [1, 2, 3]),
         UI (Tab 1) (Subheader ''Gemini AI Stock Analysis''),
         Call (Call_get_company_info ''AAPL''),
         UI Main (Error [Lit ''An error occurred: connection reset'']),
         UI Main (Info [Lit (''Please check if the stock symbol is correct. For IDX stocks, ''
                    @ ''use the format '' @ quoted ''IDX:SYMBOL'' @ '' (e.g., IDX:ADRO).'')])],
        Inr ())
   \<and> UI (Tab 2) (Warning ''Company information not available'')
        \<notin> set (fst (analyze failing_metadata_world [] ''AAPL''))
   \<and> UI (Tab 3) (Subheader ''AAPL Financial Metrics'')
        \<notin> set (fst (analyze failing_metadata_world [] ''AAPL''))
   \<and> UI (Tab 4) (Subheader ''AAPL News & Sentiment Analysis'')
        \<notin> set (fst (analyze failing_metadata_world [] ''AAPL''))"
proof -
  have t1: "tab1 failing_metadata_world [] ''AAPL'' [1, 2, 3] (display_data [1, 2, 3])
              = (take 5 (tab1_head ''AAPL'' (display_data [1, 2, 3])),
                 Inl (OtherError ''connection reset''))"
    by (rule tab1_company_info_raises) (rule failing_metadata_world_calls)+
  have c: "\<not> is_crypto ''AAPL''"
    by (simp add: is_crypto_hyphen)
  show ?thesis
    using c
    by (simp add: failing_metadata_world_calls
        analyze_tab1_raises [OF failing_metadata_world_calls(1) t1]
        display_data_def tab1_head_def handler_trace_def)
qed

text \<open>
  Claim C4, amended. A fetch that returns an empty result does not abort the display of the
  other sections: once tab 1 has rendered, empty metadata gives the placeholder of tab 2,
  empty metrics the placeholder of tab 3 and, when tab 3 renders to its end, an empty news
  list the placeholder of tab 4, and the request ends without an unhandled error. A fetch
  that raises is caught by the one handler of the request. If the price-data fetch raises,
  only the error message is shown. If the metadata, metrics or first news fetch raises,
  tab 1 stops there: the request shows what tab 1 had rendered and the error message, and
  no widget of any other tab. If the news fetch of tab 4 raises, tabs 2 and 3 have been
  rendered and the error message follows.
\<close>

theorem fetch_failure_display:
  "(get_stock_data w symbol ''max'' = Inl e \<longrightarrow>
      analyze w key symbol =
        (UI Main (Spinner (''Analyzing '' @ symbol @ ''...'')) # Call (Call_get_stock_data symbol ''max'')
           # handler_trace e, Inr ()))
   \<and> (plot_stock_chart w shown = Inr fig \<longrightarrow>
        (get_company_info w symbol = Inl e \<longrightarrow> snd (tab1 w key symbol rows shown) = Inl e)
        \<and> (get_company_info w symbol = Inr ci \<and> get_financial_metrics w symbol = Inl e \<longrightarrow>
              snd (tab1 w key symbol rows shown) = Inl e)
        \<and> (get_company_info w symbol = Inr ci \<and> get_financial_metrics w symbol = Inr fm
            \<and> get_news_for_asset w 0 symbol 5 = Inl e \<longrightarrow>
              snd (tab1 w key symbol rows shown) = Inl e))
   \<and> (get_stock_data w symbol ''max'' = Inr (Some rows)
        \<and> analyze w key symbol = (tr :: 'fig event list, r) \<longrightarrow>
        (tab1 w key symbol rows (display_data rows) = (t1, Inl e) \<longrightarrow>
           r = Inr ()
           \<and> tr = UI Main (Spinner (''Analyzing '' @ symbol @ ''...''))
                   # Call (Call_get_stock_data symbol ''max'') # UI Main (Tabs tab_names)
                   # map (place (Tab 1)) t1 @ handler_trace e
           \<and> (\<forall>n x. n \<noteq> 1 \<longrightarrow> UI (Tab n) x \<notin> set tr))
        \<and> (tab1 w key symbol rows (display_data rows) = (t1, Inr (ci, fm)) \<longrightarrow>
           r = Inr ()
           \<and> (\<not> truthy_dict ci \<longrightarrow>
                UI (Tab 2) (Warning (if is_crypto symbol then ''Cryptocurrency information not available''
                                     else ''Company information not available'')) \<in> set tr)
           \<and> (\<not> truthy_dict fm \<longrightarrow>
                UI (Tab 3) (Warning ''Financial metrics not available'') \<in> set tr)
           \<and> ((\<exists>t3 :: 'fig event list. tab3 symbol fm = (t3, Inr ())) \<longrightarrow>
                (get_news_for_asset w 1 symbol 5 = Inr [] \<longrightarrow>
                   UI (Tab 4) (Info [Lit (''No recent news found for '' @ symbol)]) \<in> set tr)
                \<and> (get_news_for_asset w 1 symbol 5 = Inl e \<longrightarrow>
                   UI (Tab 2) (Subheader (''About '' @ symbol)) \<in> set tr
                   \<and> UI (Tab 3) (Subheader (symbol @ '' ''
                        @ (if is_crypto symbol then ''Cryptocurrency'' else ''Financial'')
                        @ '' Metrics'')) \<in> set tr
                   \<and> suffix (handler_trace e) tr))))"
proof -
  have a: "get_stock_data w symbol ''max'' = Inl e \<longrightarrow>
      analyze w key symbol =
        (UI Main (Spinner (''Analyzing '' @ symbol @ ''...'')) # Call (Call_get_stock_data symbol ''max'')
           # handler_trace e, Inr ())"
    by (simp add: analyze_fetch_raises)
  have b: "plot_stock_chart w shown = Inr fig \<longrightarrow>
        (get_company_info w symbol = Inl e \<longrightarrow> snd (tab1 w key symbol rows shown) = Inl e)
        \<and> (get_company_info w symbol = Inr ci \<and> get_financial_metrics w symbol = Inl e \<longrightarrow>
              snd (tab1 w key symbol rows shown) = Inl e)
        \<and> (get_company_info w symbol = Inr ci \<and> get_financial_metrics w symbol = Inr fm
            \<and> get_news_for_asset w 0 symbol 5 = Inl e \<longrightarrow>
              snd (tab1 w key symbol rows shown) = Inl e)"
    by (simp add: tab1_company_info_raises tab1_metrics_raises tab1_news_raises)
  have c: "get_stock_data w symbol ''max'' = Inr (Some rows)
        \<and> analyze w key symbol = (tr :: 'fig event list, r) \<longrightarrow>
        (tab1 w key symbol rows (display_data rows) = (t1, Inl e) \<longrightarrow>
           r = Inr ()
           \<and> tr = UI Main (Spinner (''Analyzing '' @ symbol @ ''...''))
                   # Call (Call_get_stock_data symbol ''max'') # UI Main (Tabs tab_names)
                   # map (place (Tab 1)) t1 @ handler_trace e
           \<and> (\<forall>n x. n \<noteq> 1 \<longrightarrow> UI (Tab n) x \<notin> set tr))"
  proof (intro impI, elim conjE)
    assume gd: "get_stock_data w symbol ''max'' = Inr (Some rows)"
      and an: "analyze w key symbol = (tr, r)"
      and t1: "tab1 w key symbol rows (display_data rows) = (t1, Inl e)"
    from analyze_tab1_raises [OF gd t1] an have
      r: "r = Inr ()"
      and tr: "tr = UI Main (Spinner (''Analyzing '' @ symbol @ ''...''))
                   # Call (Call_get_stock_data symbol ''max'') # UI Main (Tabs tab_names)
                   # map (place (Tab 1)) t1 @ handler_trace e"
      by simp_all
    have "\<forall>n x. n \<noteq> 1 \<longrightarrow> UI (Tab n) x \<notin> set tr"
      unfolding tr by (auto simp: placed_member handler_trace_def)
    with r tr show "r = Inr ()
           \<and> tr = UI Main (Spinner (''Analyzing '' @ symbol @ ''...''))
                   # Call (Call_get_stock_data symbol ''max'') # UI Main (Tabs tab_names)
                   # map (place (Tab 1)) t1 @ handler_trace e
           \<and> (\<forall>n x. n \<noteq> 1 \<longrightarrow> UI (Tab n) x \<notin> set tr)"
      by blast
  qed
  have d: "get_stock_data w symbol ''max'' = Inr (Some rows)
        \<and> analyze w key symbol = (tr :: 'fig event list, r) \<longrightarrow>
        (tab1 w key symbol rows (display_data rows) = (t1, Inr (ci, fm)) \<longrightarrow>
           r = Inr ()
           \<and> (\<not> truthy_dict ci \<longrightarrow>
                UI (Tab 2) (Warning (if is_crypto symbol then ''Cryptocurrency information not available''
                                     else ''Company information not available'')) \<in> set tr)
           \<and> (\<not> truthy_dict fm \<longrightarrow>
                UI (Tab 3) (Warning ''Financial metrics not available'') \<in> set tr)
           \<and> ((\<exists>t3 :: 'fig event list. tab3 symbol fm = (t3, Inr ())) \<longrightarrow>
                (get_news_for_asset w 1 symbol 5 = Inr [] \<longrightarrow>
                   UI (Tab 4) (Info [Lit (''No recent news found for '' @ symbol)]) \<in> set tr)
                \<and> (get_news_for_asset w 1 symbol 5 = Inl e \<longrightarrow>
                   UI (Tab 2) (Subheader (''About '' @ symbol)) \<in> set tr
                   \<and> UI (Tab 3) (Subheader (symbol @ '' ''
                        @ (if is_crypto symbol then ''Cryptocurrency'' else ''Financial'')
                        @ '' Metrics'')) \<in> set tr
                   \<and> suffix (handler_trace e) tr)))"
  proof (intro impI, elim conjE)
    assume gd: "get_stock_data w symbol ''max'' = Inr (Some rows)"
      and an: "analyze w key symbol = (tr, r)"
      and t1: "tab1 w key symbol rows (display_data rows) = (t1, Inr (ci, fm))"
    obtain t2 :: "'fig event list" and rest2 where t2: "tab2 symbol ci = (t2, Inr ())"
      and s2: "t2 = UI Main (Subheader (''About '' @ symbol)) # rest2"
      using tab2_head [of symbol ci] by blast
    obtain t3 :: "'fig event list" and r3 where t3: "tab3 symbol fm = (t3, r3)"
      by (cases "tab3 symbol fm :: ('fig, unit) res")
    obtain t4 r4 where t4: "tab4 w symbol = (t4, r4)"
      by (cases "tab4 w symbol")
    note m = tab_widget_in_request [OF gd t1 t2 t3 t4 an]
    note full = analyze_tab1_done [OF gd t1 t2 t3 t4]
    have w2: "\<not> truthy_dict ci \<longrightarrow>
                UI (Tab 2) (Warning (if is_crypto symbol then ''Cryptocurrency information not available''
                                     else ''Company information not available'')) \<in> set tr"
      using t2 unfolding m(2) by (auto simp: tab2_absent)
    have w3: "\<not> truthy_dict fm \<longrightarrow>
                UI (Tab 3) (Warning ''Financial metrics not available'') \<in> set tr"
      using t3 unfolding m(3) by (auto simp: tab3_absent)
    have n4: "(\<exists>t3 :: 'fig event list. tab3 symbol fm = (t3, Inr ())) \<longrightarrow>
                (get_news_for_asset w 1 symbol 5 = Inr [] \<longrightarrow>
                   UI (Tab 4) (Info [Lit (''No recent news found for '' @ symbol)]) \<in> set tr)"
      using t3 t4 unfolding m(4) by (auto simp: tab4_no_news)
    have h2: "UI (Tab 2) (Subheader (''About '' @ symbol)) \<in> set tr"
      unfolding m(2) s2 by auto
    have h3: "UI (Tab 3) (Subheader (symbol @ '' ''
                        @ (if is_crypto symbol then ''Cryptocurrency'' else ''Financial'')
                        @ '' Metrics'')) \<in> set tr"
      using tab3_starts [OF t3] unfolding m(3) by auto
    have e4: "(\<exists>t3 :: 'fig event list. tab3 symbol fm = (t3, Inr ())) \<longrightarrow>
                (get_news_for_asset w 1 symbol 5 = Inl e \<longrightarrow> suffix (handler_trace e) tr)"
    proof (intro impI)
      assume "\<exists>t3 :: 'fig event list. tab3 symbol fm = (t3, Inr ())"
        and nr: "get_news_for_asset w 1 symbol 5 = Inl e"
      with t3 have r3: "r3 = Inr ()" by auto
      from t4 nr have r4: "r4 = Inl e" by (simp add: tab4_news_raises)
      from full an r3 r4 show "suffix (handler_trace e) tr"
        by (auto simp: suffix_def)
    qed
    from m(1) w2 w3 n4 h2 h3 e4 show
      "r = Inr ()
           \<and> (\<not> truthy_dict ci \<longrightarrow>
                UI (Tab 2) (Warning (if is_crypto symbol then ''Cryptocurrency information not available''
                                     else ''Company information not available'')) \<in> set tr)
           \<and> (\<not> truthy_dict fm \<longrightarrow>
                UI (Tab 3) (Warning ''Financial metrics not available'') \<in> set tr)
           \<and> ((\<exists>t3 :: 'fig event list. tab3 symbol fm = (t3, Inr ())) \<longrightarrow>
                (get_news_for_asset w 1 symbol 5 = Inr [] \<longrightarrow>
                   UI (Tab 4) (Info [Lit (''No recent news found for '' @ symbol)]) \<in> set tr)
                \<and> (get_news_for_asset w 1 symbol 5 = Inl e \<longrightarrow>
                   UI (Tab 2) (Subheader (''About '' @ symbol)) \<in> set tr
                   \<and> UI (Tab 3) (Subheader (symbol @ '' ''
                        @ (if is_crypto symbol then ''Cryptocurrency'' else ''Financial'')
                        @ '' Metrics'')) \<in> set tr
                   \<and> suffix (handler_trace e) tr))"
      by blast
  qed
  from a b c d show ?thesis by blast
qed

subsection \<open>The credential\<close>




subsection \<open>Examples\<close>

lemmas variant_world_defs = failing_price_world_def failing_metrics_world_def
  failing_news_world_def late_news_failure_world_def no_metrics_world_def

lemma tab1_empty_analysis:
  assumes "plot_stock_chart w shown = Inr fig"
    and "get_company_info w symbol = Inr ci"
    and "get_financial_metrics w symbol = Inr fm"
    and "get_news_for_asset w 0 symbol 5 = Inr news"
    and "generate_stock_analysis w key symbol rows ci fm news = Inr []"
  shows "\<exists>t1. tab1 w key symbol rows shown = (t1, Inr (ci, fm))"
  using tab1_calls_return [OF assms show_recommendation_empty] by simp

theorem asset_kind_selects_attribute_set_witness:
  "is_crypto ''BTC-USD'' \<and> \<not> is_crypto ''AAPL'' \<and> \<not> is_crypto ''IDX:BBCA''
   \<and> truthy_dict (Some [(''longName'', PStr ''Bitcoin USD'')])
   \<and> labels_of (fst (tab2 ''BTC-USD'' (Some [(''longName'', PStr ''Bitcoin USD'')])
                       :: (unit, unit) res))
       = crypto_info_labels
   \<and> labels_of (fst (tab2 ''IDX:BBCA'' (Some [(''longName'', PStr ''Bank Central Asia'')])
                       :: (unit, unit) res))
       = stock_info_labels
   \<and> truthy_dict (Some sample_metrics)
   \<and> (\<exists>tr :: unit event list.
        tab3 ''AAPL'' (Some sample_metrics) = (tr, Inr ()) \<and> labels_of tr = stock_metric_labels)
   \<and> (\<exists>tr :: unit event list.
        tab3 ''BTC-USD'' (Some sample_metrics) = (tr, Inr ()) \<and> labels_of tr = crypto_metric_labels)"
proof -
  have ne: "sample_metrics \<noteq> []" "truthy_dict (Some sample_metrics)"
    by (simp_all add: sample_metrics_def)
  have c: "\<not> is_crypto ''AAPL''" "is_crypto ''BTC-USD''"
    by (simp_all add: is_crypto_hyphen)
  have "percent_ok (is_crypto ''AAPL'') sample_metrics"
    using c
    by (simp add: percent_ok_def truthy_guarded_def none_guarded_def dget_none_def dget_def
        sample_metrics_def)
  from percent_ok_completes [OF ne(1) this]
  obtain tr :: "unit event list" where t: "tab3 ''AAPL'' (Some sample_metrics) = (tr, Inr ())"
    by blast
  have "percent_ok (is_crypto ''BTC-USD'') sample_metrics"
    using c
    by (simp add: percent_ok_def truthy_guarded_def dget_none_def dget_def sample_metrics_def)
  from percent_ok_completes [OF ne(1) this]
  obtain tr' :: "unit event list" where t': "tab3 ''BTC-USD'' (Some sample_metrics) = (tr', Inr ())"
    by blast
  show ?thesis
    using t t' ne c
      asset_kind_selects_attribute_set [of "''BTC-USD''" "Some [(''longName'', PStr ''Bitcoin USD'')]"
        "Some sample_metrics" tr']
      asset_kind_selects_attribute_set [of "''AAPL''" None "Some sample_metrics" tr]
      asset_kind_selects_attribute_set [of "''IDX:BBCA''" "Some [(''longName'', PStr ''Bank Central Asia'')]" None tr]
    by simp
qed

theorem zero_percentage_display_witness:
  "map_of zero_metrics ''dividendYield'' = Some (PInt 0)
   \<and> map_of zero_metrics ''revenueGrowth'' = Some (PFloat 0)
   \<and> map_of sample_metrics ''revenueGrowth'' = None
   \<and> \<not> is_crypto ''AAPL''
   \<and> (\<exists>tr :: unit event list.
        tab3 ''AAPL'' (Some zero_metrics) = (tr, Inr ())
        \<and> UI Main (Metric ''Dividend Yield'' (PStr ''N/A'')) \<in> set tr
        \<and> UI Main (WriteLabelled ''**Revenue Growth:**'' (PStr ''0.00%'')) \<in> set tr)
   \<and> map_of crypto_zero_metrics ''regularMarketChangePercent'' = Some (PFloat 0)
   \<and> is_crypto ''BTC-USD''
   \<and> (\<exists>tr :: unit event list.
        tab3 ''BTC-USD'' (Some crypto_zero_metrics) = (tr, Inr ())
        \<and> UI Main (Metric ''24h Change'' (PStr ''N/A'')) \<in> set tr)"
proof -
  have c: "\<not> is_crypto ''AAPL''" "is_crypto ''BTC-USD''"
    by (simp_all add: is_crypto_hyphen)
  have k: "map_of zero_metrics ''dividendYield'' = Some (PInt 0)"
    "map_of zero_metrics ''revenueGrowth'' = Some (PFloat 0)"
    "map_of [] ''dividendYield'' = (None :: pyval option)"
    "map_of sample_metrics ''revenueGrowth'' = None"
    "map_of crypto_zero_metrics ''regularMarketChangePercent'' = Some (PFloat 0)"
    "map_of sample_metrics ''regularMarketChangePercent'' = None"
    by (simp_all add: zero_metrics_def sample_metrics_def crypto_zero_metrics_def)
  have ne: "zero_metrics \<noteq> []" "crypto_zero_metrics \<noteq> []"
    by (simp_all add: zero_metrics_def crypto_zero_metrics_def)
  have "percent_ok (is_crypto ''AAPL'') zero_metrics"
    using c
    by (simp add: percent_ok_def truthy_guarded_def none_guarded_def dget_none_def dget_def
        zero_metrics_def)
  from percent_ok_completes [OF ne(1) this]
  obtain tr :: "unit event list" where t: "tab3 ''AAPL'' (Some zero_metrics) = (tr, Inr ())"
    by blast
  have "percent_ok (is_crypto ''BTC-USD'') crypto_zero_metrics"
    using c
    by (simp add: percent_ok_def truthy_guarded_def dget_none_def dget_def crypto_zero_metrics_def)
  from percent_ok_completes [OF ne(2) this]
  obtain tr' :: "unit event list" where
    t': "tab3 ''BTC-USD'' (Some crypto_zero_metrics) = (tr', Inr ())"
    by blast
  have a: "UI Main (Metric ''Dividend Yield'' (PStr ''N/A'')) \<in> set tr"
    using zero_percentage_display
      [of zero_metrics "''dividendYield''" "PInt 0" "[]" "''AAPL''" tr "''Dividend Yield''"]
      t c k
    by (simp add: truthy_guarded_def)
  have b: "UI Main (WriteLabelled ''**Revenue Growth:**'' (PStr ''0.00%'')) \<in> set tr"
    using zero_percentage_display
      [of zero_metrics "''revenueGrowth''" "PFloat 0" sample_metrics "''AAPL''" tr
          "''**Revenue Growth:**''"]
      t c k
    by (simp add: none_guarded_def)
  have d: "UI Main (Metric ''24h Change'' (PStr ''N/A'')) \<in> set tr'"
    using zero_percentage_display
      [of crypto_zero_metrics "''regularMarketChangePercent''" "PFloat 0" sample_metrics
          "''BTC-USD''" tr' "''24h Change''"]
      t' c k
    by (simp add: truthy_guarded_def)
  from a b d t t' c k show ?thesis by blast
qed

theorem unknown_symbol_is_terminal_witness:
  "get_stock_data sample_world = get_stock_data_spec sample_upstream
   \<and> sample_upstream ''ZZZZ'' ''max'' = None
   \<and> analyze sample_world [] ''ZZZZ'' =
       ([UI Main (Spinner ''Analyzing ZZZZ...''),
         Call (Call_get_stock_data ''ZZZZ'' ''max''),
         UI Main (Error [Lit ''Could not retrieve data for ZZZZ. Please check the symbol and try again.''])],
        Inr ())
   \<and> submit_button submit_zzzz \<and> stock_symbol_input submit_zzzz = ''ZZZZ''
   \<and> suffix [UI Main (Spinner ''Analyzing ZZZZ...''),
              Call (Call_get_stock_data ''ZZZZ'' ''max''),
              UI Main (Error [Lit ''Could not retrieve data for ZZZZ. Please check the symbol and try again.''])]
        (fst (snd (page sample_world None submit_zzzz)))
   \<and> snd (snd (page sample_world None submit_zzzz)) = Inr ()"
proof -
  have a: "get_stock_data sample_world = get_stock_data_spec sample_upstream"
    by (auto simp: sample_world_def get_stock_data_spec_def fun_eq_iff split: option.splits)
  have b: "sample_upstream ''ZZZZ'' ''max'' = None"
    by (simp add: sample_upstream_def)
  have i: "submit_button submit_zzzz" "stock_symbol_input submit_zzzz = ''ZZZZ''"
    by (simp_all add: submit_zzzz_def)
  show ?thesis
    using unknown_symbol_is_terminal
      [of sample_world sample_upstream "''ZZZZ''" "[]" submit_zzzz None] a b i
    by simp
qed

lemma variant_world_calls:
  "get_stock_data failing_price_world symbol period = Inl (OtherError ''timeout'')"
  "get_stock_data failing_metrics_world ''AAPL'' ''max'' = Inr (Some [1, 2, 3])"
  "get_stock_data failing_news_world ''AAPL'' ''max'' = Inr (Some [1, 2, 3])"
  "get_stock_data late_news_failure_world ''AAPL'' ''max'' = Inr (Some [1, 2, 3])"
  "get_stock_data no_metrics_world ''AAPL'' ''max'' = Inr (Some [1, 2, 3])"
  "plot_stock_chart failing_metrics_world rows = Inr rows"
  "plot_stock_chart failing_news_world rows = Inr rows"
  "plot_stock_chart late_news_failure_world rows = Inr rows"
  "plot_stock_chart no_metrics_world rows = Inr rows"
  "get_company_info failing_metrics_world ''AAPL'' = Inr (Some [(''longName'', PStr ''Apple Inc.'')])"
  "get_company_info failing_news_world ''AAPL'' = Inr (Some [(''longName'', PStr ''Apple Inc.'')])"
  "get_company_info late_news_failure_world ''AAPL''
     = Inr (Some [(''longName'', PStr ''Apple Inc.'')])"
  "get_company_info no_metrics_world ''AAPL'' = Inr (Some [(''longName'', PStr ''Apple Inc.'')])"
  "get_financial_metrics failing_metrics_world symbol = Inl (OtherError ''timeout'')"
  "get_financial_metrics failing_news_world symbol = Inr (Some sample_metrics)"
  "get_financial_metrics late_news_failure_world symbol = Inr (Some sample_metrics)"
  "get_financial_metrics no_metrics_world symbol = Inr None"
  "get_news_for_asset failing_news_world 0 symbol k = Inl (OtherError ''timeout'')"
  "get_news_for_asset late_news_failure_world 0 symbol k = Inr []"
  "get_news_for_asset late_news_failure_world 1 symbol k = Inl (OtherError ''timeout'')"
  "get_news_for_asset no_metrics_world n symbol k = Inr []"
  "generate_stock_analysis late_news_failure_world key symbol rows ci fm news = Inr []"
  "generate_stock_analysis no_metrics_world key symbol rows ci fm news = Inr []"
  "get_news_for_asset late_news_failure_world (Suc 0) symbol k = Inl (OtherError ''timeout'')"
  by (simp_all add: variant_world_defs sample_world_calls)

theorem empty_result_placeholder_witness:
  "get_stock_data sample_world ''ETH-USD'' ''max'' = Inr (Some [1, 2, 3])
   \<and> snd (tab1 sample_world [] ''ETH-USD'' [1, 2, 3] (display_data [1, 2, 3]))
       = Inr (Some [], Some sample_metrics)
   \<and> \<not> truthy_dict (Some []) \<and> truthy_dict (Some sample_metrics)
   \<and> snd (analyze sample_world [] ''ETH-USD'') = Inr ()
   \<and> UI (Tab 2) (Warning ''Cryptocurrency information not available'')
        \<in> set (fst (analyze sample_world [] ''ETH-USD''))
   \<and> UI (Tab 3) (Subheader ''ETH-USD Cryptocurrency Metrics'')
        \<in> set (fst (analyze sample_world [] ''ETH-USD''))
   \<and> UI (Tab 3) (Warning ''Financial metrics not available'')
        \<notin> set (fst (analyze sample_world [] ''ETH-USD''))
   \<and> UI (Tab 4) (Subheader ''ETH-USD News & Sentiment Analysis'')
        \<in> set (fst (analyze sample_world [] ''ETH-USD''))
   \<and> get_stock_data no_metrics_world ''AAPL'' ''max'' = Inr (Some [1, 2, 3])
   \<and> snd (tab1 no_metrics_world [] ''AAPL'' [1, 2, 3] (display_data [1, 2, 3]))
       = Inr (Some [(''longName'', PStr ''Apple Inc.'')], None)
   \<and> truthy_dict (Some [(''longName'', PStr ''Apple Inc.'')]) \<and> \<not> truthy_dict None
   \<and> UI (Tab 3) (Warning ''Financial metrics not available'')
        \<in> set (fst (analyze no_metrics_world [] ''AAPL''))
   \<and> UI (Tab 2) (Warning ''Company information not available'')
        \<notin> set (fst (analyze no_metrics_world [] ''AAPL''))
   \<and> UI (Tab 4) (Subheader ''AAPL News & Sentiment Analysis'')
        \<in> set (fst (analyze no_metrics_world [] ''AAPL''))"
proof -
  have c: "is_crypto ''ETH-USD''" "\<not> is_crypto ''AAPL''"
    by (simp_all add: is_crypto_hyphen)
  obtain t1 where t1:
    "tab1 sample_world [] ''ETH-USD'' [1, 2, 3] (display_data [1, 2, 3])
       = (t1, Inr (Some [], Some sample_metrics))"
    using tab1_empty_analysis
      [OF sample_world_calls(3) sample_world_calls(4) sample_world_calls(6)
          sample_world_calls(7) sample_world_calls(8)]
    by blast
  obtain tr r where an: "analyze sample_world [] ''ETH-USD'' = (tr, r)"
    by (cases "analyze sample_world [] ''ETH-USD''")
  have ok: "percent_ok (is_crypto ''ETH-USD'') sample_metrics"
    using c
    by (simp add: percent_ok_def truthy_guarded_def dget_none_def dget_def sample_metrics_def)
  have ne: "sample_metrics \<noteq> []"
    by (simp add: sample_metrics_def)
  have t3: "\<exists>t3 :: nat list event list. tab3 ''ETH-USD'' (Some sample_metrics) = (t3, Inr ())"
    using percent_ok_completes [OF ne ok] .
  obtain u1 where u1:
    "tab1 no_metrics_world [] ''AAPL'' [1, 2, 3] (display_data [1, 2, 3])
       = (u1, Inr (Some [(''longName'', PStr ''Apple Inc.'')], None))"
    using tab1_empty_analysis
      [OF variant_world_calls(9) variant_world_calls(13) variant_world_calls(17)
          variant_world_calls(21) variant_world_calls(23)]
    by blast
  obtain ur rr where un: "analyze no_metrics_world [] ''AAPL'' = (ur, rr)"
    by (cases "analyze no_metrics_world [] ''AAPL''")
  have first: "r = Inr ()"
    "UI (Tab 2) (Warning ''Cryptocurrency information not available'') \<in> set tr"
    "UI (Tab 3) (Subheader ''ETH-USD Cryptocurrency Metrics'') \<in> set tr"
    "UI (Tab 3) (Warning ''Financial metrics not available'') \<notin> set tr"
    "UI (Tab 4) (Subheader ''ETH-USD News & Sentiment Analysis'') \<in> set tr"
    using empty_result_placeholder
      [of sample_world "''ETH-USD''" "[1, 2, 3]" "[]" t1 "Some []" "Some sample_metrics" tr r]
      t1 an c ne t3
    by (simp_all add: sample_world_calls)
  have second:
    "UI (Tab 3) (Warning ''Financial metrics not available'') \<in> set ur"
    "UI (Tab 2) (Warning ''Company information not available'') \<notin> set ur"
    "UI (Tab 4) (Subheader ''AAPL News & Sentiment Analysis'') \<in> set ur"
    using empty_result_placeholder
      [of no_metrics_world "''AAPL''" "[1, 2, 3]" "[]" u1
          "Some [(''longName'', PStr ''Apple Inc.'')]" None ur rr]
      u1 un c
    by (simp_all add: variant_world_calls)
  from first second show ?thesis
    using t1 an u1 un ne by (simp add: sample_world_calls variant_world_calls)
qed

theorem fetch_failure_display_witness:
  "get_stock_data failing_price_world ''AAPL'' ''max'' = Inl (OtherError ''timeout'')
   \<and> analyze failing_price_world [] ''AAPL'' =
       (UI Main (Spinner ''Analyzing AAPL...'') # Call (Call_get_stock_data ''AAPL'' ''max'')
          # handler_trace (OtherError ''timeout''), Inr ())
   \<and> get_company_info failing_metadata_world ''AAPL'' = Inl (OtherError ''connection reset'')
   \<and> snd (tab1 failing_metadata_world [] ''AAPL'' [1, 2, 3] [1, 2, 3])
       = Inl (OtherError ''connection reset'')
   \<and> get_financial_metrics failing_metrics_world ''AAPL'' = Inl (OtherError ''timeout'')
   \<and> snd (tab1 failing_metrics_world [] ''AAPL'' [1, 2, 3] [1, 2, 3]) = Inl (OtherError ''timeout'')
   \<and> get_news_for_asset failing_news_world 0 ''AAPL'' 5 = Inl (OtherError ''timeout'')
   \<and> snd (tab1 failing_news_world [] ''AAPL'' [1, 2, 3] [1, 2, 3]) = Inl (OtherError ''timeout'')
   \<and> UI (Tab 3) (Subheader ''AAPL Financial Metrics'')
        \<notin> set (fst (analyze failing_metrics_world [] ''AAPL''))
   \<and> snd (analyze failing_metrics_world [] ''AAPL'') = Inr ()
   \<and> snd (tab1 sample_world [] ''ETH-USD'' [1, 2, 3] (display_data [1, 2, 3]))
       = Inr (Some [], Some sample_metrics)
   \<and> \<not> truthy_dict (Some [])
   \<and> get_news_for_asset sample_world 1 ''ETH-USD'' 5 = Inr []
   \<and> snd (analyze sample_world [] ''ETH-USD'') = Inr ()
   \<and> UI (Tab 2) (Warning ''Cryptocurrency information not available'')
        \<in> set (fst (analyze sample_world [] ''ETH-USD''))
   \<and> UI (Tab 4) (Info [Lit ''No recent news found for ETH-USD''])
        \<in> set (fst (analyze sample_world [] ''ETH-USD''))
   \<and> \<not> truthy_dict None
   \<and> UI (Tab 3) (Warning ''Financial metrics not available'')
        \<in> set (fst (analyze no_metrics_world [] ''AAPL''))
   \<and> get_news_for_asset late_news_failure_world 1 ''AAPL'' 5 = Inl (OtherError ''timeout'')
   \<and> UI (Tab 3) (Subheader ''AAPL Financial Metrics'')
        \<in> set (fst (analyze late_news_failure_world [] ''AAPL''))
   \<and> suffix (handler_trace (OtherError ''timeout''))
        (fst (analyze late_news_failure_world [] ''AAPL''))"
proof -
  have c: "is_crypto ''ETH-USD''" "\<not> is_crypto ''AAPL''"
    by (simp_all add: is_crypto_hyphen)
  have ne: "sample_metrics \<noteq> []"
    by (simp add: sample_metrics_def)
  \<comment> \<open>the price-data fetch raises\<close>
  have price: "analyze failing_price_world [] ''AAPL'' =
       (UI Main (Spinner ''Analyzing AAPL...'') # Call (Call_get_stock_data ''AAPL'' ''max'')
          # handler_trace (OtherError ''timeout''), Inr ())"
    using fetch_failure_display
      [where w = failing_price_world and symbol = "''AAPL''" and key = "[]"
         and e = "OtherError ''timeout''"]
    by (simp add: variant_world_calls)
  \<comment> \<open>a fetch of tab 1 raises\<close>
  have meta: "snd (tab1 failing_metadata_world [] ''AAPL'' [1, 2, 3] [1, 2, 3])
       = Inl (OtherError ''connection reset'')"
    using fetch_failure_display
      [where w = failing_metadata_world and symbol = "''AAPL''" and rows = "[1, 2, 3]"
         and key = "[]" and shown = "[1, 2, 3]" and fig = "[1, 2, 3]"
         and e = "OtherError ''connection reset''"]
    by (simp add: failing_metadata_world_calls)
  have metr: "snd (tab1 failing_metrics_world [] ''AAPL'' [1, 2, 3] [1, 2, 3])
       = Inl (OtherError ''timeout'')"
    using fetch_failure_display
      [where w = failing_metrics_world and symbol = "''AAPL''" and rows = "[1, 2, 3]"
         and key = "[]" and shown = "[1, 2, 3]" and fig = "[1, 2, 3]"
         and ci = "Some [(''longName'', PStr ''Apple Inc.'')]" and e = "OtherError ''timeout''"]
    by (simp add: variant_world_calls)
  have news: "snd (tab1 failing_news_world [] ''AAPL'' [1, 2, 3] [1, 2, 3])
       = Inl (OtherError ''timeout'')"
    using fetch_failure_display
      [where w = failing_news_world and symbol = "''AAPL''" and rows = "[1, 2, 3]"
         and key = "[]" and shown = "[1, 2, 3]" and fig = "[1, 2, 3]"
         and ci = "Some [(''longName'', PStr ''Apple Inc.'')]" and fm = "Some sample_metrics"
         and e = "OtherError ''timeout''"]
    by (simp add: variant_world_calls)
  have d: "display_data [1, 2, 3 :: nat] = [1, 2, 3]"
    by (simp add: display_data_def)
  obtain m1 where m1: "tab1 failing_metrics_world [] ''AAPL'' [1, 2, 3] (display_data [1, 2, 3])
       = (m1, Inl (OtherError ''timeout''))"
    using metr unfolding d by (metis prod.collapse)
  obtain mt mr where mn: "analyze failing_metrics_world [] ''AAPL'' = (mt, mr)"
    by (cases "analyze failing_metrics_world [] ''AAPL''")
  have ab: "mr = Inr () \<and> (\<forall>n x. n \<noteq> 1 \<longrightarrow> UI (Tab n) x \<notin> set mt)"
    using fetch_failure_display
      [where w = failing_metrics_world and symbol = "''AAPL''" and rows = "[1, 2, 3]"
         and key = "[]" and tr = mt and r = mr and ?t1.0 = m1 and e = "OtherError ''timeout''"]
      m1 mn variant_world_calls(2)
    by blast
  then have "(3 :: nat) \<noteq> 1 \<longrightarrow> UI (Tab 3) (Subheader ''AAPL Financial Metrics'') \<notin> set mt"
    by blast
  with ab have aborted:
    "UI (Tab 3) (Subheader ''AAPL Financial Metrics'') \<notin> set mt" "mr = Inr ()"
    by simp_all
  \<comment> \<open>empty results\<close>
  obtain t1 where t1:
    "tab1 sample_world [] ''ETH-USD'' [1, 2, 3] (display_data [1, 2, 3])
       = (t1, Inr (Some [], Some sample_metrics))"
    using tab1_empty_analysis
      [OF sample_world_calls(3) sample_world_calls(4) sample_world_calls(6)
          sample_world_calls(7) sample_world_calls(8)]
    by blast
  obtain tr r where an: "analyze sample_world [] ''ETH-USD'' = (tr, r)"
    by (cases "analyze sample_world [] ''ETH-USD''")
  have ok: "percent_ok (is_crypto ''ETH-USD'') sample_metrics"
    using c
    by (simp add: percent_ok_def truthy_guarded_def dget_none_def dget_def sample_metrics_def)
  have t3: "\<exists>t3 :: nat list event list. tab3 ''ETH-USD'' (Some sample_metrics) = (t3, Inr ())"
    using percent_ok_completes [OF ne ok] .
  have empty: "r = Inr ()"
    "UI (Tab 2) (Warning ''Cryptocurrency information not available'') \<in> set tr"
    "UI (Tab 4) (Info [Lit ''No recent news found for ETH-USD'']) \<in> set tr"
    using fetch_failure_display
      [where w = sample_world and symbol = "''ETH-USD''" and rows = "[1, 2, 3]" and key = "[]"
         and tr = tr and r = r and ?t1.0 = t1 and ci = "Some []" and fm = "Some sample_metrics"]
      t1 an t3 c
    by (simp_all add: sample_world_calls)
  obtain u1 where u1:
    "tab1 no_metrics_world [] ''AAPL'' [1, 2, 3] (display_data [1, 2, 3])
       = (u1, Inr (Some [(''longName'', PStr ''Apple Inc.'')], None))"
    using tab1_empty_analysis
      [OF variant_world_calls(9) variant_world_calls(13) variant_world_calls(17)
          variant_world_calls(21) variant_world_calls(23)]
    by blast
  obtain ur rr where un: "analyze no_metrics_world [] ''AAPL'' = (ur, rr)"
    by (cases "analyze no_metrics_world [] ''AAPL''")
  have nometrics: "UI (Tab 3) (Warning ''Financial metrics not available'') \<in> set ur"
    using fetch_failure_display
      [where w = no_metrics_world and symbol = "''AAPL''" and rows = "[1, 2, 3]" and key = "[]"
         and tr = ur and r = rr and ?t1.0 = u1
         and ci = "Some [(''longName'', PStr ''Apple Inc.'')]" and fm = None]
      u1 un
    by (simp add: variant_world_calls)
  \<comment> \<open>the news fetch of tab 4 raises\<close>
  obtain l1 where l1:
    "tab1 late_news_failure_world [] ''AAPL'' [1, 2, 3] (display_data [1, 2, 3])
       = (l1, Inr (Some [(''longName'', PStr ''Apple Inc.'')], Some sample_metrics))"
    using tab1_empty_analysis
      [OF variant_world_calls(8) variant_world_calls(12) variant_world_calls(16)
          variant_world_calls(19) variant_world_calls(22)]
    by blast
  obtain lt lr where ln: "analyze late_news_failure_world [] ''AAPL'' = (lt, lr)"
    by (cases "analyze late_news_failure_world [] ''AAPL''")
  have ok2: "percent_ok (is_crypto ''AAPL'') sample_metrics"
    using c
    by (simp add: percent_ok_def truthy_guarded_def none_guarded_def dget_none_def dget_def
        sample_metrics_def)
  have t3': "\<exists>t3 :: nat list event list. tab3 ''AAPL'' (Some sample_metrics) = (t3, Inr ())"
    using percent_ok_completes [OF ne ok2] .
  have late: "UI (Tab 3) (Subheader ''AAPL Financial Metrics'') \<in> set lt"
    "suffix (handler_trace (OtherError ''timeout'')) lt"
    using fetch_failure_display
      [where w = late_news_failure_world and symbol = "''AAPL''" and rows = "[1, 2, 3]"
         and key = "[]" and tr = lt and r = lr and ?t1.0 = l1
         and ci = "Some [(''longName'', PStr ''Apple Inc.'')]" and fm = "Some sample_metrics"
         and e = "OtherError ''timeout''"]
      l1 ln t3' c
    by (simp_all add: variant_world_calls)
  from price meta metr news aborted empty nometrics late show ?thesis
    using mn t1 an un ln
    by (simp add: sample_world_calls variant_world_calls failing_metadata_world_calls)
qed

end
